theory Spec2Isabelle
  imports Complex_Main "HOL-Library.Word" "HOL-Library.Multiset"
begin

section \<open>Data model\<close>

text \<open>
  The server keeps its state in MongoDB collections of the database \<open>bistroDb\<close>.
  Request bodies are JSON documents parsed by \<open>express.json()\<close>; the handlers read
  them without a schema, so the fields the handlers inspect (\<open>cartIds\<close>, \<open>price\<close>) are
  kept as untyped JSON values. A JSON number is kept as the exact value of its literal;
  JavaScript reads it as the IEEE 754 double nearest to that value (\<open>double\<close> below).
\<close>

datatype json =
    JNull
  | JBool bool
  | JNum rat
  | JStr string
  | JArr "json list"
  | JObj "(string \<times> json) list"

section \<open>JavaScript numbers\<close>

text \<open>
  A JavaScript number is a finite double, an infinity or \<open>NaN\<close>. A finite double is
  kept as its exact rational value; the two zeros are not told apart.
\<close>

datatype number = Finite rat | PosInfinity | NegInfinity | NaN

text \<open>\<open>b\<close> to an integer power.\<close>

definition pow :: "nat \<Rightarrow> int \<Rightarrow> rat" where
  "pow b k = (if 0 \<le> k then of_nat b ^ nat k else 1 / of_nat b ^ nat (- k))"

text \<open>
  The integer logarithm \<open>\<lfloor>log b x\<rfloor>\<close> of a positive rational: the number of divisions by
  \<open>b\<close> that bring \<open>x\<close> below \<open>b\<close>, or minus the number of multiplications that bring it up
  to 1.
\<close>

function ilog_up :: "nat \<Rightarrow> rat \<Rightarrow> nat" where
  "ilog_up b x = (if b < 2 \<or> x < of_nat b then 0 else Suc (ilog_up b (x / of_nat b)))"
  by pat_completeness auto
termination
proof (relation "measure (\<lambda>(b, x). nat \<lfloor>x\<rfloor>)")
  show "wf (measure (\<lambda>(b, x). nat \<lfloor>x\<rfloor>))" by simp
next
  fix b :: nat and x :: rat
  assume a: "\<not> (b < 2 \<or> x < of_nat b)"
  then have b2: "2 \<le> (of_nat b :: rat)" and xb: "of_nat b \<le> x" by auto
  have x2: "2 \<le> x" using b2 xb by linarith
  have "x / of_nat b \<le> x / 2"
    by (rule divide_left_mono) (use b2 x2 in auto)
  also have "\<dots> < of_int \<lfloor>x\<rfloor>"
  proof -
    have "x < of_int \<lfloor>x\<rfloor> + 1" by linarith
    moreover have "2 \<le> \<lfloor>x\<rfloor>" using x2 by (simp add: le_floor_iff)
    then have "2 \<le> (of_int \<lfloor>x\<rfloor> :: rat)" by linarith
    ultimately show ?thesis by linarith
  qed
  finally have "\<lfloor>x / of_nat b\<rfloor> < \<lfloor>x\<rfloor>" by (simp add: floor_less_iff)
  moreover have "0 < \<lfloor>x\<rfloor>" using x2 by (simp add: less_floor_iff)
  ultimately have "nat \<lfloor>x / of_nat b\<rfloor> < nat \<lfloor>x\<rfloor>"
    by (simp only: zless_nat_conj)
  then show "((b, x / of_nat b), (b, x)) \<in> measure (\<lambda>(b, x). nat \<lfloor>x\<rfloor>)"
    by simp
qed

function ilog_down :: "nat \<Rightarrow> rat \<Rightarrow> nat" where
  "ilog_down b x = (if b < 2 \<or> x \<le> 0 \<or> 1 \<le> x then 0 else Suc (ilog_down b (x * of_nat b)))"
  by pat_completeness auto
termination
proof (relation "measure (\<lambda>(b, x). nat \<lceil>1 / x\<rceil>)")
  show "wf (measure (\<lambda>(b, x). nat \<lceil>1 / x\<rceil>))" by simp
next
  fix b :: nat and x :: rat
  assume a: "\<not> (b < 2 \<or> x \<le> 0 \<or> 1 \<le> x)"
  then have b2: "2 \<le> (of_nat b :: rat)" and x0: "0 < x" and x1: "x < 1" by auto
  have y1: "1 < 1 / x" using x0 x1 by simp
  have c2: "2 \<le> \<lceil>1 / x\<rceil>" using y1 by linarith
  define y where "y = 1 / x"
  have yc: "y \<le> of_int \<lceil>y\<rceil>" by linarith
  have c2': "(2::rat) \<le> of_int \<lceil>y\<rceil>" using c2 unfolding y_def by linarith
  have "1 / (x * of_nat b) = y / of_nat b" by (simp add: y_def)
  also have "\<dots> \<le> y / 2"
    by (rule divide_left_mono) (use b2 x0 in \<open>auto simp: y_def\<close>)
  also have "\<dots> \<le> of_int \<lceil>y\<rceil> - 1"
    using yc c2' by linarith
  also have "\<dots> = of_int (\<lceil>y\<rceil> - 1)" by simp
  finally have "\<lceil>1 / (x * of_nat b)\<rceil> \<le> \<lceil>y\<rceil> - 1" by (simp only: ceiling_le_iff)
  then have "nat \<lceil>1 / (x * of_nat b)\<rceil> < nat \<lceil>1 / x\<rceil>"
    using c2 unfolding y_def by linarith
  then show "((b, x * of_nat b), (b, x)) \<in> measure (\<lambda>(b, x). nat \<lceil>1 / x\<rceil>)"
    by simp
qed

definition ilog :: "nat \<Rightarrow> rat \<Rightarrow> int" where
  "ilog b x = (if 1 \<le> x then int (ilog_up b x) else - int (ilog_down b x))"

text \<open>Rounding to the nearest integer, a tie to the even one.\<close>

definition round_half_even :: "rat \<Rightarrow> int" where
  "round_half_even r =
     (let f = \<lfloor>r\<rfloor>; d = r - of_int f
      in if d < 1 / 2 then f else if 1 / 2 < d then f + 1 else if even f then f else f + 1)"

text \<open>
  The double nearest to a rational (round to nearest, ties to even): 53 significant bits,
  the least quantum \<open>2^-1074\<close> of the subnormal numbers, and overflow to an infinity from
  \<open>2^1024\<close> on. This is how a JSON literal is read and how every arithmetic result is
  rounded.
\<close>

definition double :: "rat \<Rightarrow> number" where
  "double x =
     (if x = 0 then Finite 0
      else
        (let k = max (ilog 2 \<bar>x\<bar> - 52) (- 1074);
             y = of_int (round_half_even (x / pow 2 k)) * pow 2 k
         in if pow 2 1024 \<le> \<bar>y\<bar> then (if 0 < x then PosInfinity else NegInfinity)
            else Finite y))"


text \<open>\<open>a + b\<close> and \<open>a * b\<close> on numbers.\<close>

fun sign_of :: "number \<Rightarrow> rat" where
  "sign_of (Finite x) = sgn x"
| "sign_of PosInfinity = 1"
| "sign_of NegInfinity = - 1"
| "sign_of NaN = 0"

definition js_add :: "number \<Rightarrow> number \<Rightarrow> number" where
  "js_add a b =
     (case (a, b) of
        (Finite x, Finite y) \<Rightarrow> double (x + y)
      | _ \<Rightarrow>
          if a = NaN \<or> b = NaN then NaN
          else if a = PosInfinity \<and> b = NegInfinity \<or> a = NegInfinity \<and> b = PosInfinity then NaN
          else if a = PosInfinity \<or> b = PosInfinity then PosInfinity
          else NegInfinity)"

definition js_mul :: "number \<Rightarrow> number \<Rightarrow> number" where
  "js_mul a b =
     (case (a, b) of
        (Finite x, Finite y) \<Rightarrow> double (x * y)
      | _ \<Rightarrow>
          if a = NaN \<or> b = NaN \<or> sign_of a * sign_of b = 0 then NaN
          else if 0 < sign_of a * sign_of b then PosInfinity
          else NegInfinity)"

text \<open>
  \<open>Number::toString\<close> prints the shortest decimal that reads back as the same double; of
  several it prints the closest. \<open>candidate x k\<close> is that decimal with \<open>k\<close> significant
  digits, if one exists, and \<open>shortest x\<close> the one with the fewest digits (17 always
  suffice).
\<close>

definition candidate :: "rat \<Rightarrow> nat \<Rightarrow> rat option" where
  "candidate x k =
     (let scale = pow 10 (ilog 10 x + 1 - int k);
          lo = \<lfloor>x / scale\<rfloor>;
          a = of_int lo * scale;
          b = of_int (lo + 1) * scale;
          oka = (double a = Finite x);
          okb = (double b = Finite x)
      in if oka \<and> okb
         then (if x - a < b - x then Some a
               else if b - x < x - a then Some b
               else if even lo then Some a else Some b)
         else if oka then Some a
         else if okb then Some b
         else None)"

primrec shortest_from :: "nat \<Rightarrow> nat \<Rightarrow> rat \<Rightarrow> rat" where
  "shortest_from 0 k x = x"
| "shortest_from (Suc fuel) k x =
     (case candidate x k of Some v \<Rightarrow> v | None \<Rightarrow> shortest_from fuel (Suc k) x)"

definition shortest :: "rat \<Rightarrow> rat" where
  "shortest x = shortest_from 17 1 x"

text \<open>
  \<open>parseInt(x)\<close> on a number prints the number and reads the digits before the first
  character that is not a digit. A number whose decimal lies from \<open>0.000001\<close> up to
  \<open>10^21\<close> prints in plain notation, so the result is the integer part of the decimal;
  outside that range it prints in exponent notation (\<open>1.5e-7\<close>, \<open>1.5e+21\<close>) and the
  result is the leading digit. \<open>Infinity\<close> and \<open>NaN\<close> give \<open>NaN\<close>.
\<close>

definition parseInt :: "number \<Rightarrow> number" where
  "parseInt v =
     (case v of
        Finite x \<Rightarrow>
          (if x = 0 then Finite 0
           else
             (let V = shortest \<bar>x\<bar>;
                  n = ilog 10 V + 1;
                  d = (if - 6 < n \<and> n \<le> 21 then \<lfloor>V\<rfloor> else \<lfloor>V / pow 10 (n - 1)\<rfloor>)
              in double (of_int (if x < 0 then - d else d))))
      | _ \<Rightarrow> NaN)"

text \<open>\<open>Math.round(x)\<close> rounds to the nearest integer, a half upwards.\<close>

definition Math_round :: "number \<Rightarrow> number" where
  "Math_round v = (case v of Finite x \<Rightarrow> double (of_int \<lfloor>x + 1 / 2\<rfloor>) | _ \<Rightarrow> v)"

text \<open>The characters \<open>String(x)\<close> prints for a number.\<close>

fun digits :: "nat \<Rightarrow> string" where
  "digits n = (if n < 10 then [char_of (48 + n)] else digits (n div 10) @ [char_of (48 + n mod 10)])"

primrec frac_digits :: "nat \<Rightarrow> rat \<Rightarrow> string" where
  "frac_digits 0 r = []"
| "frac_digits (Suc k) r =
     (if r = 0 then []
      else char_of (48 + nat \<lfloor>10 * r\<rfloor>) # frac_digits k (10 * r - of_int \<lfloor>10 * r\<rfloor>))"

definition decimal :: "rat \<Rightarrow> string" where
  "decimal v =
     digits (nat \<lfloor>v\<rfloor>) @
     (if v = of_int \<lfloor>v\<rfloor> then [] else CHR ''.'' # frac_digits 40 (v - of_int \<lfloor>v\<rfloor>))"

definition Number_toString :: "number \<Rightarrow> string" where
  "Number_toString v =
     (case v of
        NaN \<Rightarrow> ''NaN''
      | PosInfinity \<Rightarrow> ''Infinity''
      | NegInfinity \<Rightarrow> ''-Infinity''
      | Finite x \<Rightarrow>
          (if x = 0 then ''0''
           else
             (let V = shortest \<bar>x\<bar>; n = ilog 10 V + 1
              in (if x < 0 then ''-'' else []) @
                 (if - 6 < n \<and> n \<le> 21 then decimal V
                  else decimal (V / pow 10 (n - 1)) @ ''e'' @
                       (if 0 \<le> n - 1 then ''+'' else ''-'') @ digits (nat \<bar>n - 1\<bar>)))))"

section \<open>Documents\<close>

text \<open>A MongoDB \<open>ObjectId\<close> is a 12-byte value.\<close>

type_synonym ObjectId = "96 word"

text \<open>A document of the menu collection: \<open>_id\<close>, \<open>category\<close>, \<open>price\<close>.\<close>

record MenuItem =
  menu_id :: string
  menu_category :: string
  menu_price :: rat

text \<open>A document of \<open>carts\<close>: \<open>_id\<close>, the owner's \<open>email\<close>, the \<open>menuId\<close> it refers to.\<close>

record CartEntry =
  cart_id :: ObjectId
  cart_email :: string
  menuId :: string

text \<open>A document of \<open>users\<close>: \<open>email\<close> and the optional \<open>role\<close>.\<close>

record User =
  user_email :: string
  role :: "string option"

text \<open>
  The body of \<open>POST /payments\<close>, as the handlers and the two statistics routes read it:
  \<open>payment.price\<close> and \<open>payment.cartIds\<close> (\<open>None\<close> when the key is absent, that is
  \<open>undefined\<close>), and \<open>menuItems\<close>, the local field of the \<open>$lookup\<close> stage.
\<close>

record PaymentBody =
  email :: string
  price :: "json option"
  cartIds :: "json option"
  menuItems :: "string list"

text \<open>A stored payment: the posted body under the \<open>_id\<close> the driver generated for it.\<close>

record PaymentRecord =
  payment_id :: ObjectId
  doc :: PaymentBody

text \<open>
  The database. \<open>src/index.js\<close> binds \<open>menuCollection\<close> to the collection named
  \<open>menus\<close> (line 55), the two other revisions bind it to \<open>menu\<close>; the aggregation of
  \<open>/order-stats\<close> names its join collection by the string \<open>"menu"\<close> in all three.
  Both collections are therefore part of the state.
\<close>

record db =
  menus :: "MenuItem list"
  menu :: "MenuItem list"
  carts :: "CartEntry list"
  users :: "User list"
  payments :: "PaymentRecord list"

section \<open>Responses\<close>

record InsertOneResult =
  insertedId :: ObjectId

record DeleteResult =
  deletedCount :: nat

text \<open>
  The value of \<open>total\<close> in the \<open>reduce\<close> of \<open>/admin-stats\<close>: a number, or a string once a
  price that is a string, an array or an object has been concatenated to it (the characters
  of that string are not modelled).
\<close>

datatype js_sum = Number number | Concatenated

text \<open>The body of \<open>GET /admin-stats\<close>: \<open>{revenue, orders, users, products}\<close>.\<close>

record AdminStats =
  stats_revenue :: js_sum
  stats_orders :: nat
  stats_users :: nat
  stats_products :: nat

text \<open>One element of the body of \<open>GET /order-stats\<close>: \<open>{category, quantity, revenue}\<close>.\<close>

record CategorySummary =
  category :: string
  quantity :: nat
  revenue :: rat

datatype reply =
    Settled InsertOneResult DeleteResult
  | ClientSecret string
  | Stats AdminStats
  | Breakdown "CategorySummary list"
  | Failure string

text \<open>A response is the HTTP status and the body sent.\<close>

type_synonym response = "nat \<times> reply"

section \<open>The store driver\<close>

text \<open>
  What the environment decides for the two store calls of one settlement request: whether
  \<open>insertOne\<close> or \<open>deleteMany\<close> rejects (store unreachable, write refused), and the
  identifier the driver generates for the inserted document. A rejected call leaves the
  collection as it was.
\<close>

record store_env =
  insertOne_rejects :: bool
  deleteMany_rejects :: bool
  generated_id :: ObjectId

datatype error = StoreError | BSONError | TypeError

text \<open>
  \<open>paymentCollection.insertOne(payment)\<close>: appends the document under the generated
  identifier. The unique index on \<open>_id\<close> refuses an identifier that is already stored.
\<close>

definition insertOne ::
  "store_env \<Rightarrow> PaymentBody \<Rightarrow> PaymentRecord list \<Rightarrow> error + (InsertOneResult \<times> PaymentRecord list)"
where
  "insertOne env payment coll =
     (if insertOne_rejects env \<or> generated_id env \<in> set (map payment_id coll)
      then Inl StoreError
      else Inr (\<lparr>insertedId = generated_id env\<rparr>,
                coll @ [\<lparr>payment_id = generated_id env, doc = payment\<rparr>]))"

text \<open>
  \<open>cartCollection.deleteMany({_id: {$in: ids}})\<close>: removes every entry whose \<open>_id\<close> is
  one of \<open>ids\<close> and reports how many it removed.
\<close>

definition deleteMany ::
  "store_env \<Rightarrow> ObjectId list \<Rightarrow> CartEntry list \<Rightarrow> error + (DeleteResult \<times> CartEntry list)"
where
  "deleteMany env ids coll =
     (if deleteMany_rejects env then Inl StoreError
      else Inr (\<lparr>deletedCount = length (filter (\<lambda>c. cart_id c \<in> set ids) coll)\<rparr>,
                filter (\<lambda>c. cart_id c \<notin> set ids) coll))"

text \<open>\<open>usersCollection.findOne({email: e})\<close>: the first user with that email.\<close>

definition findOne :: "string \<Rightarrow> User list \<Rightarrow> User option" where
  "findOne e coll = find (\<lambda>u. user_email u = e) coll"

subsection \<open>The aggregation stages used by \<open>/order-stats\<close>\<close>

text \<open>
  The stages are MongoDB's; the definitions follow its documented behaviour.

  \<open>$lookup\<close> with an array as local field: MongoDB matches the foreign field against the
  elements of the array, as the query \<open>{_id: {$in: menuItems}}\<close> on the joined collection
  does. The output array therefore holds every document of the joined collection whose
  \<open>_id\<close> equals an element of the payment's \<open>menuItems\<close>, each once, in the order of the
  joined collection. It replaces \<open>menuItems\<close> (\<open>as: "menuItems"\<close>).
\<close>

definition lookup :: "MenuItem list \<Rightarrow> PaymentRecord \<Rightarrow> PaymentRecord \<times> MenuItem list" where
  "lookup foreign p = (p, filter (\<lambda>m. menu_id m \<in> set (menuItems (doc p))) foreign)"

text \<open>
  \<open>$unwind: "$menuItems"\<close>: one output document per element of the array; a document
  whose array is empty yields none.
\<close>

definition unwind :: "('a \<times> 'b list) list \<Rightarrow> ('a \<times> 'b) list" where
  "unwind ds = concat (map (\<lambda>(p, ms). map (Pair p) ms) ds)"

text \<open>
  \<open>$group\<close> by \<open>$menuItems.category\<close> with the accumulators \<open>quantity: {$sum: 1}\<close> and
  \<open>revenue: {$sum: "$menuItems.price"}\<close>. A group is \<open>(_id, quantity, revenue)\<close>; the
  groups are listed in the order their keys first occur (MongoDB promises no order).
  The sums are those of the server, not of JavaScript, and are kept exact.
\<close>

fun group_add :: "string \<Rightarrow> rat \<Rightarrow> (string \<times> nat \<times> rat) list \<Rightarrow> (string \<times> nat \<times> rat) list" where
  "group_add k v [] = [(k, 1, v)]"
| "group_add k v ((k', n, r) # gs) =
     (if k = k' then (k', n + 1, r + v) # gs else (k', n, r) # group_add k v gs)"

definition group :: "('a \<times> MenuItem) list \<Rightarrow> (string \<times> nat \<times> rat) list" where
  "group rows = foldl (\<lambda>gs (p, m). group_add (menu_category m) (menu_price m) gs) [] rows"

text \<open>\<open>$project\<close>: \<open>{_id: 0, category: "$_id", quantity: "$quantity", revenue: "$revenue"}\<close>.\<close>

definition project :: "(string \<times> nat \<times> rat) list \<Rightarrow> CategorySummary list" where
  "project gs = map (\<lambda>(k, n, r). \<lparr>category = k, quantity = n, revenue = r\<rparr>) gs"

definition aggregate :: "MenuItem list \<Rightarrow> PaymentRecord list \<Rightarrow> CategorySummary list" where
  "aggregate foreign coll = project (group (unwind (map (lookup foreign) coll)))"

section \<open>JavaScript built-ins\<close>

text \<open>\<open>!v\<close> is true for the falsy values: \<open>null\<close>, \<open>false\<close>, \<open>0\<close> and the empty string.\<close>

fun truthy :: "json \<Rightarrow> bool" where
  "truthy JNull = False"
| "truthy (JBool b) = b"
| "truthy (JNum n) = (double n \<noteq> Finite 0)"
| "truthy (JStr s) = (s \<noteq> [])"
| "truthy (JArr xs) = True"
| "truthy (JObj kvs) = True"

fun isArray :: "json \<Rightarrow> bool" where
  "isArray (JArr xs) = True"
| "isArray v = False"

text \<open>
  The two library conversions of \<open>new ObjectId(String(id))\<close> are parameters of the model:
  \<open>String_of\<close> is JavaScript's \<open>String(v)\<close>, and \<open>ObjectId_new\<close> is the driver's
  constructor, \<open>None\<close> when it throws.
\<close>

record js_lib =
  String_of :: "json \<Rightarrow> string"
  ObjectId_new :: "json \<Rightarrow> ObjectId option"

text \<open>
  \<open>ids.map(f)\<close> where \<open>f\<close> may throw: the first failing element aborts the whole map.
\<close>

fun map_throwing :: "('a \<Rightarrow> 'b option) \<Rightarrow> 'a list \<Rightarrow> 'b list option" where
  "map_throwing f [] = Some []"
| "map_throwing f (x # xs) =
     (case f x of
        None \<Rightarrow> None
      | Some y \<Rightarrow> (case map_throwing f xs of None \<Rightarrow> None | Some ys \<Rightarrow> Some (y # ys)))"

text \<open>\<open>s.split(" ")\<close>: the pieces between the spaces, empty pieces included.\<close>

fun split_space :: "string \<Rightarrow> string list" where
  "split_space [] = [[]]"
| "split_space (c # cs) =
     (if c = CHR '' '' then [] # split_space cs
      else (case split_space cs of [] \<Rightarrow> [[c]] | w # ws \<Rightarrow> (c # w) # ws))"

text \<open>\<open>xs[1]\<close>, \<open>undefined\<close> when the array has fewer than two elements.\<close>

definition second :: "'a list \<Rightarrow> 'a option" where
  "second xs = (if 1 < length xs then Some (xs ! 1) else None)"

text \<open>
  \<open>total + payment.price\<close>. Two numbers are added as doubles; \<open>null\<close> and the booleans
  count as 0 and 1, a missing price (\<open>undefined\<close>) gives \<open>NaN\<close>, and a string, an array
  or an object turns the sum into a string, which every later \<open>+\<close> extends.
\<close>

fun js_plus :: "js_sum \<Rightarrow> json option \<Rightarrow> js_sum" where
  "js_plus Concatenated p = Concatenated"
| "js_plus (Number n) None = Number NaN"
| "js_plus (Number n) (Some JNull) = Number (js_add n (Finite 0))"
| "js_plus (Number n) (Some (JBool b)) = Number (js_add n (Finite (if b then 1 else 0)))"
| "js_plus (Number n) (Some (JNum r)) = Number (js_add n (double r))"
| "js_plus (Number n) (Some (JStr t)) = Concatenated"
| "js_plus (Number n) (Some (JArr xs)) = Concatenated"
| "js_plus (Number n) (Some (JObj kvs)) = Concatenated"

section \<open>Middleware\<close>

text \<open>A middleware either sends a response or calls \<open>next()\<close> with what it learnt.\<close>

datatype 'a step = Respond response | Next 'a

text \<open>
  A request: the \<open>authorization\<close> header, if any, and the parsed body.
\<close>

record 'b request =
  authorization :: "string option"
  body :: 'b

text \<open>
  \<open>verifyToken\<close> (\<open>src/index.js\<close>, lines 14 to 30). \<open>jwt.verify\<close> with the server's
  secret is a parameter: it maps a token to the \<open>email\<close> of the decoded payload, \<open>None\<close>
  when verification fails. A header without a second piece gives the token \<open>undefined\<close>,
  which \<open>jwt.verify\<close> refuses.
\<close>

definition verifyToken :: "(string \<Rightarrow> string option) \<Rightarrow> 'b request \<Rightarrow> string step" where
  "verifyToken jwt_verify req =
     (case authorization req of
        None \<Rightarrow> Respond (401, Failure ''unauthorized access'')
      | Some a \<Rightarrow>
          (if a = [] then Respond (401, Failure ''unauthorized access'')
           else
             (case second (split_space a) of
                None \<Rightarrow> Respond (401, Failure ''Unauthorized access'')
              | Some token \<Rightarrow>
                  (case jwt_verify token of
                     None \<Rightarrow> Respond (401, Failure ''Unauthorized access'')
                   | Some decoded \<Rightarrow> Next decoded))))"

text \<open>
  \<open>verifyAdmin\<close> (lines 70 to 79): \<open>user?.role !== "admin"\<close> answers 403.
\<close>

definition verifyAdmin :: "db \<Rightarrow> string \<Rightarrow> unit step" where
  "verifyAdmin s decoded_email =
     (case findOne decoded_email (users s) of
        None \<Rightarrow> Respond (403, Failure ''Forbidden access'')
      | Some user \<Rightarrow>
          (if role user \<noteq> Some ''admin'' then Respond (403, Failure ''Forbidden access'')
           else Next ()))"

section \<open>The handlers of \<open>src/index.js\<close>\<close>

subsection \<open>\<open>POST /create-checkout-session\<close> (lines 103 to 112)\<close>

text \<open>
  \<open>const { price } = req.body; const amount = parseInt(price * 100)\<close>, for a body whose
  \<open>price\<close> is a JSON number. The payment adapter (\<open>stripe.paymentIntents.create\<close>) is a
  parameter: it maps the amount it is given to a client secret, \<open>None\<close> when it rejects.
  The handler has no \<open>try\<close>, so a rejection leaves the request without a response.
\<close>

definition amount :: "rat \<Rightarrow> number" where
  "amount body_price = parseInt (js_mul (double body_price) (double 100))"

definition create_checkout_session :: "(number \<Rightarrow> string option) \<Rightarrow> rat \<Rightarrow> response option" where
  "create_checkout_session createIntent body_price =
     (case createIntent (amount body_price) of
        None \<Rightarrow> None
      | Some client_secret \<Rightarrow> Some (200, ClientSecret client_secret))"

subsection \<open>\<open>POST /payments\<close> (lines 183 to 225)\<close>

text \<open>
  The guard, the insert, the conversion of the cart identifiers and the deletion all run
  inside one \<open>try\<close>; the \<open>catch\<close> answers 500 and undoes nothing.
\<close>

definition invalid_cartIds :: "json option \<Rightarrow> bool" where
  "invalid_cartIds c =
     (case c of
        None \<Rightarrow> True
      | Some v \<Rightarrow> \<not> truthy v \<or> \<not> isArray v \<or> (case v of JArr xs \<Rightarrow> length xs = 0 | _ \<Rightarrow> False))"

text \<open>The elements of \<open>payment.cartIds\<close> once it is known to be an array.\<close>

definition elements :: "json option \<Rightarrow> json list" where
  "elements c = (case c of Some (JArr xs) \<Rightarrow> xs | _ \<Rightarrow> [])"

definition post_payments :: "js_lib \<Rightarrow> store_env \<Rightarrow> PaymentBody \<Rightarrow> db \<Rightarrow> response \<times> db" where
  "post_payments L env payment s =
     (if invalid_cartIds (cartIds payment)
      then ((400, Failure ''Invalid cartIds: cartIds must be a non-empty array''), s)
      else
        (case insertOne env payment (payments s) of
           Inl e \<Rightarrow> ((500, Failure ''An error occurred while processing the payment''), s)
         | Inr (paymentResult, coll) \<Rightarrow>
             (let s1 = s\<lparr>payments := coll\<rparr> in
              (case map_throwing (\<lambda>id. ObjectId_new L (JStr (String_of L id)))
                      (elements (cartIds payment)) of
                 None \<Rightarrow> ((500, Failure ''An error occurred while processing the payment''), s1)
               | Some ids \<Rightarrow>
                   (case deleteMany env ids (carts s1) of
                      Inl e \<Rightarrow>
                        ((500, Failure ''An error occurred while processing the payment''), s1)
                    | Inr (deleteResult, coll') \<Rightarrow>
                        ((200, Settled paymentResult deleteResult), s1\<lparr>carts := coll'\<rparr>))))))"

subsection \<open>\<open>GET /admin-stats\<close> (lines 239 to 255)\<close>

text \<open>
  \<open>payments.reduce((total, payment) => total + payment.price, 0)\<close>; the three counts come
  from \<open>estimatedDocumentCount()\<close>, modelled as the number of documents.
\<close>

definition admin_stats :: "db \<Rightarrow> AdminStats" where
  "admin_stats s =
     \<lparr>stats_revenue =
        foldl (\<lambda>total payment. js_plus total (price (doc payment))) (Number (Finite 0))
          (payments s),
      stats_orders = length (payments s),
      stats_users = length (users s),
      stats_products = length (menus s)\<rparr>"

subsection \<open>\<open>GET /order-stats\<close> (lines 258 to 291)\<close>

text \<open>The pipeline runs on \<open>paymentCollection\<close> and joins the collection named \<open>menu\<close>.\<close>

definition order_stats :: "db \<Rightarrow> CategorySummary list" where
  "order_stats s = aggregate (menu s) (payments s)"

subsection \<open>The routes\<close>

text \<open>
  \<open>app.post("/payments", async (req, res) => ...)\<close>: the handler is registered with no
  middleware.
\<close>

definition route_payments ::
  "js_lib \<Rightarrow> store_env \<Rightarrow> PaymentBody request \<Rightarrow> db \<Rightarrow> response \<times> db"
where
  "route_payments L env req s = post_payments L env (body req) s"

text \<open>\<open>app.get("/admin-stats", verifyToken, verifyAdmin, ...)\<close>.\<close>

definition route_admin_stats :: "(string \<Rightarrow> string option) \<Rightarrow> 'b request \<Rightarrow> db \<Rightarrow> response" where
  "route_admin_stats jwt_verify req s =
     (case verifyToken jwt_verify req of
        Respond r \<Rightarrow> r
      | Next decoded \<Rightarrow>
          (case verifyAdmin s decoded of
             Respond r \<Rightarrow> r
           | Next u \<Rightarrow> (200, Stats (admin_stats s))))"

text \<open>\<open>app.get("/order-stats", verifyToken, verifyAdmin, ...)\<close>.\<close>

definition route_order_stats :: "(string \<Rightarrow> string option) \<Rightarrow> 'b request \<Rightarrow> db \<Rightarrow> response" where
  "route_order_stats jwt_verify req s =
     (case verifyToken jwt_verify req of
        Respond r \<Rightarrow> r
      | Next decoded \<Rightarrow>
          (case verifyAdmin s decoded of
             Respond r \<Rightarrow> r
           | Next u \<Rightarrow> (200, Breakdown (order_stats s))))"

text \<open>\<open>app.post("/create-checkout-session", verifyToken, ...)\<close>.\<close>

definition route_create_checkout_session ::
  "(string \<Rightarrow> string option) \<Rightarrow> (number \<Rightarrow> string option) \<Rightarrow> rat request \<Rightarrow> response option"
where
  "route_create_checkout_session jwt_verify createIntent req =
     (case verifyToken jwt_verify req of
        Respond r \<Rightarrow> Some r
      | Next decoded \<Rightarrow> create_checkout_session createIntent (body req))"

section \<open>The handlers of the two other revisions\<close>

subsection \<open>\<open>src/unnamed/part_000\<close>\<close>

text \<open>
  \<open>POST /create-checkout-session\<close> (lines 103 to 116): \<open>amount: Math.round(price * 100)\<close>,
  inside a \<open>try\<close> whose \<open>catch\<close> answers 500.
\<close>

definition amount_part_000 :: "rat \<Rightarrow> number" where
  "amount_part_000 body_price = Math_round (js_mul (double body_price) (double 100))"

definition create_checkout_session_part_000 :: "(number \<Rightarrow> string option) \<Rightarrow> rat \<Rightarrow> response" where
  "create_checkout_session_part_000 createIntent body_price =
     (case createIntent (amount_part_000 body_price) of
        None \<Rightarrow> (500, Failure ''Failed to create payment intent'')
      | Some client_secret \<Rightarrow> (200, ClientSecret client_secret))"

text \<open>
  \<open>POST /payments\<close> (lines 172 to 188): the guard is \<open>!Array.isArray(payment.cartIds) ||
  payment.cartIds.length === 0\<close>, run before the \<open>try\<close>; the identifiers are passed to the
  constructor as they are.
\<close>

definition invalid_cartIds_part_000 :: "json option \<Rightarrow> bool" where
  "invalid_cartIds_part_000 c =
     (case c of
        None \<Rightarrow> True
      | Some v \<Rightarrow> \<not> isArray v \<or> (case v of JArr xs \<Rightarrow> length xs = 0 | _ \<Rightarrow> False))"

definition post_payments_part_000 ::
  "js_lib \<Rightarrow> store_env \<Rightarrow> PaymentBody \<Rightarrow> db \<Rightarrow> response \<times> db"
where
  "post_payments_part_000 L env payment s =
     (if invalid_cartIds_part_000 (cartIds payment)
      then ((400, Failure ''Invalid cartIds: must be a non-empty array''), s)
      else
        (case insertOne env payment (payments s) of
           Inl e \<Rightarrow> ((500, Failure ''Failed to process payment''), s)
         | Inr (paymentResult, coll) \<Rightarrow>
             (let s1 = s\<lparr>payments := coll\<rparr> in
              (case map_throwing (ObjectId_new L) (elements (cartIds payment)) of
                 None \<Rightarrow> ((500, Failure ''Failed to process payment''), s1)
               | Some ids \<Rightarrow>
                   (case deleteMany env ids (carts s1) of
                      Inl e \<Rightarrow> ((500, Failure ''Failed to process payment''), s1)
                    | Inr (deleteResult, coll') \<Rightarrow>
                        ((200, Settled paymentResult deleteResult), s1\<lparr>carts := coll'\<rparr>))))))"

subsection \<open>\<open>src/unnamed/part_001\<close>\<close>

text \<open>
  \<open>POST /payments\<close> (lines 163 to 174): no guard and no \<open>try\<close>. The handler inserts
  first; \<open>payment.cartIds.map\<close> throws a \<open>TypeError\<close> when \<open>cartIds\<close> is not an array.
  An exception or a rejected store call leaves the \<open>async\<close> handler without a response,
  which is the value \<open>None\<close>.
\<close>

definition cartIds_map :: "(json \<Rightarrow> 'b option) \<Rightarrow> json option \<Rightarrow> error + 'b list" where
  "cartIds_map f c =
     (case c of
        Some (JArr xs) \<Rightarrow> (case map_throwing f xs of None \<Rightarrow> Inl BSONError | Some ys \<Rightarrow> Inr ys)
      | _ \<Rightarrow> Inl TypeError)"

definition post_payments_part_001 ::
  "js_lib \<Rightarrow> store_env \<Rightarrow> PaymentBody \<Rightarrow> db \<Rightarrow> response option \<times> db"
where
  "post_payments_part_001 L env payment s =
     (case insertOne env payment (payments s) of
        Inl e \<Rightarrow> (None, s)
      | Inr (paymentResult, coll) \<Rightarrow>
          (let s1 = s\<lparr>payments := coll\<rparr> in
           (case cartIds_map (ObjectId_new L) (cartIds payment) of
              Inl e \<Rightarrow> (None, s1)
            | Inr ids \<Rightarrow>
                (case deleteMany env ids (carts s1) of
                   Inl e \<Rightarrow> (None, s1)
                 | Inr (deleteResult, coll') \<Rightarrow>
                     (Some (200, Settled paymentResult deleteResult), s1\<lparr>carts := coll'\<rparr>)))))"

section \<open>The category breakdown in the words of the specification\<close>

text \<open>
  The specification describes the breakdown in three steps: expand every payment's list of
  menu-item identifiers into one row per element, join each row against the catalog by
  identifier (a row without a match is dropped), and group the surviving rows by category.
  This second definition follows those words, to be compared with \<open>order_stats\<close>.
\<close>

definition rows_spec :: "PaymentRecord list \<Rightarrow> (PaymentRecord \<times> string) list" where
  "rows_spec coll = concat (map (\<lambda>p. map (Pair p) (menuItems (doc p))) coll)"

definition join_spec ::
  "MenuItem list \<Rightarrow> (PaymentRecord \<times> string) list \<Rightarrow> (PaymentRecord \<times> MenuItem) list"
where
  "join_spec catalog rows =
     concat (map (\<lambda>(p, i). map (Pair p) (filter (\<lambda>m. menu_id m = i) catalog)) rows)"

definition categoryBreakdown_spec :: "MenuItem list \<Rightarrow> PaymentRecord list \<Rightarrow> CategorySummary list" where
  "categoryBreakdown_spec catalog coll = project (group (join_spec catalog (rows_spec coll)))"

section \<open>Vocabulary of the claims\<close>

text \<open>
  The store accepts the insert: the call is not rejected and the generated identifier is new.
\<close>

definition accepted :: "store_env \<Rightarrow> PaymentRecord list \<Rightarrow> bool" where
  "accepted env coll \<longleftrightarrow>
     \<not> insertOne_rejects env \<and> generated_id env \<notin> set (map payment_id coll)"

text \<open>The document that an accepted insert stores.\<close>

definition stored :: "store_env \<Rightarrow> PaymentBody \<Rightarrow> PaymentRecord" where
  "stored env payment = \<lparr>payment_id = generated_id env, doc = payment\<rparr>"

text \<open>The response of the \<open>catch\<close> block of \<open>POST /payments\<close> in \<open>src/index.js\<close>.\<close>

definition failed500 :: response where
  "failed500 = (500, Failure ''An error occurred while processing the payment'')"

text \<open>How \<open>src/index.js\<close> converts one element of \<open>cartIds\<close>: \<open>new ObjectId(String(id))\<close>.\<close>

definition to_ObjectId :: "js_lib \<Rightarrow> json \<Rightarrow> ObjectId option" where
  "to_ObjectId L i = ObjectId_new L (JStr (String_of L i))"

text \<open>
  A rational that is a double: rounding leaves it as it is. The stored prices are such
  values once they are numbers.
\<close>

definition representable :: "rat \<Rightarrow> bool" where
  "representable x \<longleftrightarrow> double x = Finite x"

text \<open>The exact partial sums of a list, from \<open>a\<close>: \<open>a\<close>, \<open>a + x1\<close>, \<open>a + x1 + x2\<close>, ...\<close>

fun partial_sums :: "rat \<Rightarrow> rat list \<Rightarrow> rat list" where
  "partial_sums a [] = [a]"
| "partial_sums a (x # xs) = a # partial_sums (a + x) xs"

text \<open>
  The prices that turn the total of \<open>/admin-stats\<close> into a string, and the number that every
  other price adds to it.
\<close>

definition concatenates :: "json option \<Rightarrow> bool" where
  "concatenates p =
     (case p of
        Some (JStr t) \<Rightarrow> True
      | Some (JArr xs) \<Rightarrow> True
      | Some (JObj kvs) \<Rightarrow> True
      | _ \<Rightarrow> False)"

definition addend :: "json option \<Rightarrow> number" where
  "addend p =
     (case p of
        Some JNull \<Rightarrow> Finite 0
      | Some (JBool b) \<Rightarrow> Finite (if b then 1 else 0)
      | Some (JNum r) \<Rightarrow> double r
      | _ \<Rightarrow> NaN)"

text \<open>The rows that reach the \<open>$group\<close> stage of \<open>/order-stats\<close>.\<close>

definition joined :: "MenuItem list \<Rightarrow> PaymentRecord list \<Rightarrow> (PaymentRecord \<times> MenuItem) list" where
  "joined foreign coll = unwind (map (lookup foreign) coll)"

text \<open>The rows of a category, and the summary computed from them.\<close>

definition rows_of :: "string \<Rightarrow> ('a \<times> MenuItem) list \<Rightarrow> ('a \<times> MenuItem) list" where
  "rows_of c rows = filter (\<lambda>row. menu_category (snd row) = c) rows"

definition summary_of :: "('a \<times> MenuItem) list \<Rightarrow> string \<Rightarrow> CategorySummary" where
  "summary_of rows c =
     \<lparr>category = c, quantity = length (rows_of c rows),
      revenue = sum_list (map (\<lambda>row. menu_price (snd row)) (rows_of c rows))\<rparr>"

text \<open>One step of the \<open>$group\<close> stage.\<close>

definition step :: "(string \<times> nat \<times> rat) list \<Rightarrow> 'a \<times> MenuItem \<Rightarrow> (string \<times> nat \<times> rat) list" where
  "step gs row = group_add (menu_category (snd row)) (menu_price (snd row)) gs"

section \<open>A library instance and databases for the closed examples\<close>

text \<open>
  The theorems below hold for every value of the library parameters. The closed examples
  run the handlers with this instance: \<open>String\<close> on a string is the string itself, on the
  other values the text JavaScript prints, and the constructor accepts a string of 24
  hexadecimal digits, the form every version of the driver accepts.
\<close>

definition hex_digit :: "char \<Rightarrow> nat option" where
  "hex_digit c =
     (let n = (of_char c :: nat) in
      if 48 \<le> n \<and> n \<le> 57 then Some (n - 48)
      else if 97 \<le> n \<and> n \<le> 102 then Some (n - 87)
      else if 65 \<le> n \<and> n \<le> 70 then Some (n - 55)
      else None)"

fun hex_value :: "nat \<Rightarrow> string \<Rightarrow> nat option" where
  "hex_value acc [] = Some acc"
| "hex_value acc (c # cs) =
     (case hex_digit c of None \<Rightarrow> None | Some d \<Rightarrow> hex_value (16 * acc + d) cs)"

definition ObjectId_hex :: "json \<Rightarrow> ObjectId option" where
  "ObjectId_hex v =
     (case v of
        JStr s \<Rightarrow> (if length s = 24 then map_option of_nat (hex_value 0 s) else None)
      | _ \<Rightarrow> None)"

fun join :: "string list \<Rightarrow> string" where
  "join [] = []"
| "join [x] = x"
| "join (x # y # ys) = x @ CHR '','' # join (y # ys)"

fun String_js :: "json \<Rightarrow> string" where
  "String_js JNull = ''null''"
| "String_js (JBool b) = (if b then ''true'' else ''false'')"
| "String_js (JNum r) = Number_toString (double r)"
| "String_js (JStr s) = s"
| "String_js (JArr xs) = join (map (\<lambda>x. if x = JNull then [] else String_js x) xs)"
| "String_js (JObj kvs) = ''[object Object]''"

definition lib_hex :: js_lib where
  "lib_hex = \<lparr>String_of = String_js, ObjectId_new = ObjectId_hex\<rparr>"

text \<open>A store that accepts both calls and generates the identifier \<open>g\<close>.\<close>

definition env_ok :: "ObjectId \<Rightarrow> store_env" where
  "env_ok g = \<lparr>insertOne_rejects = False, deleteMany_rejects = False, generated_id = g\<rparr>"

text \<open>A store that rejects the insert, and one that rejects the deletion.\<close>

definition env_insert_down :: store_env where
  "env_insert_down = \<lparr>insertOne_rejects = True, deleteMany_rejects = False, generated_id = 7\<rparr>"

definition env_delete_down :: store_env where
  "env_delete_down = \<lparr>insertOne_rejects = False, deleteMany_rejects = True, generated_id = 7\<rparr>"

definition cart1 :: CartEntry where
  "cart1 = \<lparr>cart_id = 1, cart_email = ''ann@example.com'', menuId = ''A''\<rparr>"

definition cart2 :: CartEntry where
  "cart2 = \<lparr>cart_id = 2, cart_email = ''bob@example.com'', menuId = ''B''\<rparr>"

definition db1 :: db where
  "db1 = \<lparr>menus = [], menu = [], carts = [cart1, cart2], users = [], payments = []\<rparr>"

text \<open>A settlement body of Ann's with the given \<open>cartIds\<close>.\<close>

definition order :: "json option \<Rightarrow> PaymentBody" where
  "order c = \<lparr>email = ''ann@example.com'', price = Some (JNum 10), cartIds = c, menuItems = [''A'']\<rparr>"

definition id1 :: json where
  "id1 = JStr ''000000000000000000000001''"

definition id9 :: json where
  "id9 = JStr ''000000000000000000000009''"

text \<open>Two users, of whom Root is an administrator, and the tokens \<open>jwt.verify\<close> accepts.\<close>

definition db2 :: db where
  "db2 = db1\<lparr>users := [\<lparr>user_email = ''ann@example.com'', role = None\<rparr>,
                       \<lparr>user_email = ''root@example.com'', role = Some ''admin''\<rparr>]\<rparr>"

definition jwt_sample :: "string \<Rightarrow> string option" where
  "jwt_sample token =
     (if token = ''token-of-ann'' then Some ''ann@example.com''
      else if token = ''token-of-root'' then Some ''root@example.com''
      else None)"

text \<open>The two menu items of the scenario, and a stored payment that references \<open>items\<close>.\<close>

definition itemA :: MenuItem where
  "itemA = \<lparr>menu_id = ''A'', menu_category = ''Salad'', menu_price = 10\<rparr>"

definition itemB :: MenuItem where
  "itemB = \<lparr>menu_id = ''B'', menu_category = ''Dessert'', menu_price = 5\<rparr>"

definition bought :: "string list \<Rightarrow> PaymentRecord" where
  "bought items =
     \<lparr>payment_id = 7,
      doc = \<lparr>email = ''ann@example.com'', price = Some (JNum 15), cartIds = Some (JArr [id1]),
             menuItems = items\<rparr>\<rparr>"

text \<open>
  The catalog that \<open>src/index.js\<close> serves and administers (\<open>menus\<close>) holds A and B, nothing is
  stored under the name \<open>menu\<close>, and one payment references A and B.
\<close>

definition db_menus :: db where
  "db_menus = \<lparr>menus = [itemA, itemB], menu = [], carts = [], users = [],
               payments = [bought [''A'', ''B'']]\<rparr>"

text \<open>Both collections hold A, and one payment references A twice.\<close>

definition db_twice :: db where
  "db_twice = \<lparr>menus = [itemA], menu = [itemA], carts = [], users = [],
               payments = [bought [''A'', ''A'']]\<rparr>"

text \<open>
  Two payments of 0.1 and 0.2, two payments of 10 and 15, and a second settlement body
  that names the same cart entry as \<open>order (Some (JArr [id1]))\<close> and differs from it in
  every other field.
\<close>

definition paid :: "ObjectId \<Rightarrow> rat \<Rightarrow> PaymentRecord" where
  "paid i p =
     \<lparr>payment_id = i,
      doc = \<lparr>email = ''ann@example.com'', price = Some (JNum p), cartIds = Some (JArr [id1]),
             menuItems = [''A'']\<rparr>\<rparr>"

definition db_dimes :: db where
  "db_dimes = db1\<lparr>payments := [paid 7 (1 / 10), paid 8 (2 / 10)]\<rparr>"

definition db_paid :: db where
  "db_paid = db1\<lparr>payments := [paid 7 10, paid 8 15]\<rparr>"

definition other_order :: PaymentBody where
  "other_order = \<lparr>email = ''bob@example.com'', price = Some (JNum 99),
                  cartIds = Some (JArr [id1]), menuItems = [''B'']\<rparr>"

text \<open>A store in which the price of the second payment is the string \<open>"15"\<close>.\<close>

definition db_text :: db where
  "db_text = db1\<lparr>payments := [paid 7 10, \<lparr>payment_id = 8, doc = other_order\<lparr>price := Some (JStr ''15'')\<rparr>\<rparr>]\<rparr>"

section \<open>Facts about the driver model\<close>

lemma map_throwing_None_iff:
  "map_throwing f xs = None \<longleftrightarrow> (\<exists>x \<in> set xs. f x = None)"
  by (induction xs) (auto split: option.splits)

lemma map_throwing_Some:
  "map_throwing f xs = Some ys \<Longrightarrow> map f xs = map Some ys"
  by (induction xs arbitrary: ys) (auto split: option.splits)

lemma elements_JArr: "elements (Some (JArr xs)) = xs"
  by (simp add: elements_def)

lemma invalid_cartIds_iff: "invalid_cartIds c \<longleftrightarrow> elements c = []"
  by (auto simp: invalid_cartIds_def elements_def split: option.splits json.splits)

lemma invalid_cartIds_part_000_iff: "invalid_cartIds_part_000 c \<longleftrightarrow> elements c = []"
  by (auto simp: invalid_cartIds_part_000_def elements_def split: option.splits json.splits)

lemma insertOne_accepted:
  "accepted env coll \<Longrightarrow>
   insertOne env payment coll =
     Inr (\<lparr>insertedId = generated_id env\<rparr>, coll @ [stored env payment])"
  by (simp add: insertOne_def accepted_def stored_def)

lemma insertOne_refused:
  "\<not> accepted env coll \<Longrightarrow> insertOne env payment coll = Inl StoreError"
  by (auto simp add: insertOne_def accepted_def)

lemma accepted_env_ok: "accepted (env_ok g) coll \<longleftrightarrow> g \<notin> set (map payment_id coll)"
  by (simp add: accepted_def env_ok_def)

section \<open>The branches of the settlement handlers\<close>

lemma post_payments_guard:
  "invalid_cartIds (cartIds payment) \<Longrightarrow>
   post_payments L env payment s =
     ((400, Failure ''Invalid cartIds: cartIds must be a non-empty array''), s)"
  by (simp add: post_payments_def)

lemma post_payments_part_000_guard:
  "invalid_cartIds_part_000 (cartIds payment) \<Longrightarrow>
   post_payments_part_000 L env payment s =
     ((400, Failure ''Invalid cartIds: must be a non-empty array''), s)"
  by (simp add: post_payments_part_000_def)

lemma post_payments_refused:
  "elements (cartIds payment) \<noteq> [] \<Longrightarrow> \<not> accepted env (payments s) \<Longrightarrow>
   post_payments L env payment s = (failed500, s)"
  by (simp add: post_payments_def invalid_cartIds_iff insertOne_refused failed500_def)

lemma post_payments_throws:
  "elements (cartIds payment) \<noteq> [] \<Longrightarrow> accepted env (payments s) \<Longrightarrow>
   map_throwing (to_ObjectId L) (elements (cartIds payment)) = None \<Longrightarrow>
   post_payments L env payment s =
     (failed500, s\<lparr>payments := payments s @ [stored env payment]\<rparr>)"
  by (simp add: post_payments_def invalid_cartIds_iff insertOne_accepted failed500_def
      to_ObjectId_def [abs_def])

lemma post_payments_delete_rejected:
  "elements (cartIds payment) \<noteq> [] \<Longrightarrow> accepted env (payments s) \<Longrightarrow>
   map_throwing (to_ObjectId L) (elements (cartIds payment)) = Some ids \<Longrightarrow>
   deleteMany_rejects env \<Longrightarrow>
   post_payments L env payment s =
     (failed500, s\<lparr>payments := payments s @ [stored env payment]\<rparr>)"
  by (simp add: post_payments_def invalid_cartIds_iff insertOne_accepted deleteMany_def
      failed500_def to_ObjectId_def [abs_def])

lemma post_payments_settled:
  "elements (cartIds payment) \<noteq> [] \<Longrightarrow> accepted env (payments s) \<Longrightarrow>
   map_throwing (to_ObjectId L) (elements (cartIds payment)) = Some ids \<Longrightarrow>
   \<not> deleteMany_rejects env \<Longrightarrow>
   post_payments L env payment s =
     ((200, Settled \<lparr>insertedId = generated_id env\<rparr>
              \<lparr>deletedCount = length (filter (\<lambda>c. cart_id c \<in> set ids) (carts s))\<rparr>),
      s\<lparr>payments := payments s @ [stored env payment],
        carts := filter (\<lambda>c. cart_id c \<notin> set ids) (carts s)\<rparr>)"
  by (simp add: post_payments_def invalid_cartIds_iff insertOne_accepted deleteMany_def
      to_ObjectId_def [abs_def])

lemma post_payments_part_000_throws:
  "elements (cartIds payment) \<noteq> [] \<Longrightarrow> accepted env (payments s) \<Longrightarrow>
   map_throwing (ObjectId_new L) (elements (cartIds payment)) = None \<Longrightarrow>
   post_payments_part_000 L env payment s =
     ((500, Failure ''Failed to process payment''),
      s\<lparr>payments := payments s @ [stored env payment]\<rparr>)"
  by (simp add: post_payments_part_000_def invalid_cartIds_part_000_iff insertOne_accepted)

lemma post_payments_part_000_refused:
  "elements (cartIds payment) \<noteq> [] \<Longrightarrow> \<not> accepted env (payments s) \<Longrightarrow>
   post_payments_part_000 L env payment s = ((500, Failure ''Failed to process payment''), s)"
  by (simp add: post_payments_part_000_def invalid_cartIds_part_000_iff insertOne_refused)

text \<open>The library instance on the identifiers of the examples.\<close>

lemma to_ObjectId_id1: "to_ObjectId lib_hex id1 = Some 1"
  by code_simp

lemma to_ObjectId_id9: "to_ObjectId lib_hex id9 = Some 9"
  by code_simp

lemma to_ObjectId_bad: "to_ObjectId lib_hex (JStr ''not-an-id'') = None"
  by code_simp

lemma ObjectId_new_bad: "ObjectId_new lib_hex (JStr ''not-an-id'') = None"
  by code_simp

section \<open>Settlement: the claims\<close>

lemma order_cartIds: "cartIds (order c) = c"
  by (simp add: order_def)

lemma env_ok_deleteMany: "\<not> deleteMany_rejects (env_ok g)"
  by (simp add: env_ok_def)

lemma map_throwing_ids: "map_throwing (to_ObjectId lib_hex) [id1, id9] = Some [1, 9]"
  by (simp add: to_ObjectId_id1 to_ObjectId_id9)

text \<open>
  The guard of \<open>src/index.js\<close> refuses exactly a \<open>cartIds\<close> that is missing, not an array,
  or the empty array, and so does the guard of \<open>part_000\<close>.
\<close>

lemma invalid_cartIds_cases:
  "invalid_cartIds c \<longleftrightarrow> c = None \<or> (\<exists>v. c = Some v \<and> \<not> isArray v) \<or> c = Some (JArr [])"
  by (cases c) (auto simp: invalid_cartIds_def split: json.splits)

lemma invalid_cartIds_part_000_eq: "invalid_cartIds_part_000 c = invalid_cartIds c"
  by (simp add: invalid_cartIds_iff invalid_cartIds_part_000_iff)

text \<open>
  The handler of \<open>part_001\<close> stores the payment whenever the store accepts the insert,
  whatever \<open>cartIds\<close> is, and never answers 400.
\<close>

lemma post_payments_part_001_inserts:
  "accepted env (payments s) \<Longrightarrow>
   payments (snd (post_payments_part_001 L env payment s)) = payments s @ [stored env payment]"
  by (simp add: post_payments_part_001_def insertOne_accepted Let_def
      split: sum.splits prod.splits)

lemma post_payments_part_001_never_400:
  "fst (post_payments_part_001 L env payment s) = None
   \<or> (\<exists>r d. fst (post_payments_part_001 L env payment s) = Some (200, Settled r d))"
  by (simp add: post_payments_part_001_def Let_def split: sum.splits prod.splits)

text \<open>
  Claim C1. A call of \<open>POST /payments\<close> whose \<open>cartIds\<close> is missing, empty or not a list
  fails with status 400, inserts no payment record and leaves the cart store unchanged.

  The handlers of \<open>src/index.js\<close> and \<open>part_000\<close> do so for every such body
  (\<open>post_payments_guard\<close>, \<open>post_payments_part_000_guard\<close> with \<open>invalid_cartIds_cases\<close>).
  The handler of \<open>part_001\<close> has no guard: with \<open>cartIds = []\<close> it stores the payment and
  answers 200, and with \<open>cartIds\<close> missing it stores the payment and then throws, whatever
  the library parameters are. The theorem evaluates the handlers on these two bodies.
\<close>

theorem part_001_settles_without_guard:
  "post_payments_part_001 L (env_ok 7) (order (Some (JArr []))) db1 =
     (Some (200, Settled \<lparr>insertedId = 7\<rparr> \<lparr>deletedCount = 0\<rparr>),
      db1\<lparr>payments := [stored (env_ok 7) (order (Some (JArr [])))]\<rparr>)
   \<and> post_payments_part_001 L (env_ok 7) (order None) db1 =
     (None, db1\<lparr>payments := [stored (env_ok 7) (order None)]\<rparr>)
   \<and> post_payments L (env_ok 7) (order (Some (JArr []))) db1 =
     ((400, Failure ''Invalid cartIds: cartIds must be a non-empty array''), db1)
   \<and> post_payments L (env_ok 7) (order None) db1 =
     ((400, Failure ''Invalid cartIds: cartIds must be a non-empty array''), db1)"
  by (simp add: post_payments_part_001_def post_payments_def insertOne_def deleteMany_def
      cartIds_map_def invalid_cartIds_def env_ok_def order_def db1_def stored_def
      cart1_def cart2_def)

text \<open>
  Claim C6. In every execution of the settlement handler of \<open>src/index.js\<close> the insert of
  the payment record comes before the deletion of cart entries: when the store does not
  accept the insert the whole database is left as it was, so no cart entry is deleted; once
  the guard has passed and the insert is accepted the record is in the final store whatever
  happens afterwards, in particular when \<open>deleteMany\<close> is rejected, where the handler
  answers 500 and keeps the record; and the cart store changes only in executions in which the
  record was inserted.
\<close>

theorem settle_insert_before_delete:
  "(\<not> accepted env (payments s) \<longrightarrow> snd (post_payments L env payment s) = s)
   \<and> (elements (cartIds payment) \<noteq> [] \<and> accepted env (payments s) \<longrightarrow>
        payments (snd (post_payments L env payment s)) = payments s @ [stored env payment])
   \<and> (elements (cartIds payment) \<noteq> [] \<and> accepted env (payments s) \<and> deleteMany_rejects env \<longrightarrow>
        post_payments L env payment s =
          (failed500, s\<lparr>payments := payments s @ [stored env payment]\<rparr>))
   \<and> (carts (snd (post_payments L env payment s)) \<noteq> carts s \<longrightarrow>
        payments (snd (post_payments L env payment s)) = payments s @ [stored env payment])"
proof (cases "elements (cartIds payment) = []")
  case True
  then have "post_payments L env payment s =
     ((400, Failure ''Invalid cartIds: cartIds must be a non-empty array''), s)"
    by (simp add: post_payments_guard invalid_cartIds_iff)
  with True show ?thesis by simp
next
  case ne: False
  show ?thesis
  proof (cases "accepted env (payments s)")
    case False
    then show ?thesis using post_payments_refused [OF ne False] by simp
  next
    case acc: True
    show ?thesis
    proof (cases "map_throwing (to_ObjectId L) (elements (cartIds payment))")
      case None
      then show ?thesis using post_payments_throws [OF ne acc None] ne acc by simp
    next
      case (Some ids)
      show ?thesis
      proof (cases "deleteMany_rejects env")
        case True
        then show ?thesis using post_payments_delete_rejected [OF ne acc Some True] ne acc by simp
      next
        case False
        then show ?thesis using post_payments_settled [OF ne acc Some False] ne acc by simp
      qed
    qed
  qed
qed

theorem settle_insert_before_delete_witness:
  "\<not> accepted env_insert_down (payments db1)
   \<and> snd (post_payments lib_hex env_insert_down (order (Some (JArr [id1]))) db1) = db1
   \<and> accepted env_delete_down (payments db1) \<and> deleteMany_rejects env_delete_down
   \<and> post_payments lib_hex env_delete_down (order (Some (JArr [id1]))) db1 =
       (failed500, db1\<lparr>payments := [stored env_delete_down (order (Some (JArr [id1])))]\<rparr>)"
  using settle_insert_before_delete [of env_insert_down db1 lib_hex "order (Some (JArr [id1]))"]
    settle_insert_before_delete [of env_delete_down db1 lib_hex "order (Some (JArr [id1]))"]
  by (simp add: accepted_def env_insert_down_def env_delete_down_def db1_def order_def
      elements_JArr)

text \<open>
  Claim C7, as stated: a valid settlement call removes the listed cart entries and returns
  the created payment record together with the number of cart entries removed.

  The second half fails. The handler of \<open>src/index.js\<close> sends
  \<open>{paymentResult, deleteResult}\<close>, where \<open>paymentResult\<close> is what \<open>insertOne\<close> returned: the
  acknowledgement with the identifier of the new record, not the record. Two calls that name
  the same cart entry and differ in email, price and menu items get the same response,
  while the records they create differ.
\<close>

theorem settle_reply_omits_record:
  "fst (post_payments lib_hex (env_ok 7) (order (Some (JArr [id1]))) db1) =
     (200, Settled \<lparr>insertedId = 7\<rparr> \<lparr>deletedCount = 1\<rparr>)
   \<and> fst (post_payments lib_hex (env_ok 7) other_order db1) =
       (200, Settled \<lparr>insertedId = 7\<rparr> \<lparr>deletedCount = 1\<rparr>)
   \<and> payments (snd (post_payments lib_hex (env_ok 7) (order (Some (JArr [id1]))) db1)) =
       [stored (env_ok 7) (order (Some (JArr [id1])))]
   \<and> payments (snd (post_payments lib_hex (env_ok 7) other_order db1)) =
       [stored (env_ok 7) other_order]
   \<and> stored (env_ok 7) (order (Some (JArr [id1]))) \<noteq> stored (env_ok 7) other_order"
proof -
  have acc: "accepted (env_ok 7) (payments db1)"
    by (simp add: accepted_env_ok db1_def)
  have ids: "map_throwing (to_ObjectId lib_hex) [id1] = Some [1]"
    by (simp add: to_ObjectId_id1)
  have el1: "elements (cartIds (order (Some (JArr [id1])))) \<noteq> []"
    and el2: "elements (cartIds other_order) \<noteq> []"
    by (simp_all add: order_def other_order_def elements_JArr)
  have m1: "map_throwing (to_ObjectId lib_hex) (elements (cartIds (order (Some (JArr [id1]))))) =
      Some [1]"
    and m2: "map_throwing (to_ObjectId lib_hex) (elements (cartIds other_order)) = Some [1]"
    using ids by (simp_all add: order_def other_order_def elements_JArr)
  show ?thesis
    using post_payments_settled [OF el1 acc m1 env_ok_deleteMany]
      post_payments_settled [OF el2 acc m2 env_ok_deleteMany]
    by (simp add: db1_def env_ok_def stored_def cart1_def cart2_def order_def other_order_def)
qed

text \<open>
  Claim C7, amended. For a valid settlement call (\<open>cartIds\<close> a non-empty array whose elements
  all convert to identifiers \<open>oids\<close>, both store calls accepted) the handler of
  \<open>src/index.js\<close> appends the posted body to the payment store as a new record, removes
  exactly the cart entries whose identifier is one of \<open>oids\<close> and keeps the others; an
  identifier with no matching entry is skipped without an error, so that when none matches
  the cart store is unchanged and the count is 0. It answers 200 with the acknowledgement of
  the insert, which carries the identifier the store generated for the new record and nothing
  else of it, and with the number of cart entries removed.
\<close>

theorem settle_removes_listed_carts:
  assumes "cartIds payment = Some (JArr ids)" and "ids \<noteq> []"
    and "map_throwing (to_ObjectId L) ids = Some oids"
    and "accepted env (payments s)" and "\<not> deleteMany_rejects env"
  shows "post_payments L env payment s =
           ((200, Settled \<lparr>insertedId = payment_id (stored env payment)\<rparr>
                    \<lparr>deletedCount = length (carts s) -
                       length (filter (\<lambda>c. cart_id c \<notin> set oids) (carts s))\<rparr>),
            s\<lparr>payments := payments s @ [stored env payment],
              carts := filter (\<lambda>c. cart_id c \<notin> set oids) (carts s)\<rparr>)
         \<and> map (to_ObjectId L) ids = map Some oids
         \<and> (set oids \<inter> cart_id ` set (carts s) = {} \<longrightarrow>
              snd (post_payments L env payment s) = s\<lparr>payments := payments s @ [stored env payment]\<rparr>
              \<and> fst (post_payments L env payment s) =
                  (200, Settled \<lparr>insertedId = payment_id (stored env payment)\<rparr> \<lparr>deletedCount = 0\<rparr>))
         \<and> payment_id (stored env payment) = generated_id env
         \<and> doc (stored env payment) = payment"
proof -
  have el: "elements (cartIds payment) \<noteq> []"
    and m: "map_throwing (to_ObjectId L) (elements (cartIds payment)) = Some oids"
    using assms by (simp_all add: elements_JArr)
  have count: "length (filter (\<lambda>c. cart_id c \<in> set oids) (carts s)) =
      length (carts s) - length (filter (\<lambda>c. cart_id c \<notin> set oids) (carts s))"
    using sum_length_filter_compl [of "\<lambda>c. cart_id c \<in> set oids" "carts s"] by simp
  have eq: "post_payments L env payment s =
           ((200, Settled \<lparr>insertedId = payment_id (stored env payment)\<rparr>
                    \<lparr>deletedCount = length (carts s) -
                       length (filter (\<lambda>c. cart_id c \<notin> set oids) (carts s))\<rparr>),
            s\<lparr>payments := payments s @ [stored env payment],
              carts := filter (\<lambda>c. cart_id c \<notin> set oids) (carts s)\<rparr>)"
    using post_payments_settled [OF el assms(4) m assms(5)] count by (simp add: stored_def)
  have none: "filter (\<lambda>c. cart_id c \<notin> set oids) (carts s) = carts s"
    if "set oids \<inter> cart_id ` set (carts s) = {}"
    using that by (intro filter_True) auto
  show ?thesis
    using eq map_throwing_Some [OF assms(3)] none by (auto simp: stored_def)
qed

theorem settle_removes_listed_carts_witness:
  "post_payments lib_hex (env_ok 7) (order (Some (JArr [id1, id9]))) db1 =
     ((200, Settled \<lparr>insertedId = 7\<rparr> \<lparr>deletedCount = 1\<rparr>),
      db1\<lparr>payments := [stored (env_ok 7) (order (Some (JArr [id1, id9])))], carts := [cart2]\<rparr>)"
proof -
  have acc: "accepted (env_ok 7) (payments db1)"
    by (simp add: accepted_env_ok db1_def)
  show ?thesis
    using settle_removes_listed_carts
      [OF order_cartIds _ map_throwing_ids acc env_ok_deleteMany]
    by (simp add: db1_def env_ok_def stored_def cart1_def cart2_def)
qed

text \<open>
  Claim C8. Settlement is not idempotent. When a valid call is made twice with the same
  arguments, and the store accepts both (the second insert under a new identifier), the
  payment store ends with two records that carry the same body under different identifiers;
  the second call answers 200 with \<open>deletedCount = 0\<close> and leaves the cart store as the
  first call left it.
\<close>

theorem settle_twice:
  assumes "cartIds payment = Some (JArr ids)" and "ids \<noteq> []"
    and "map_throwing (to_ObjectId L) ids = Some oids"
    and "accepted env1 (payments s)" and "\<not> deleteMany_rejects env1"
    and "accepted env2 (payments s @ [stored env1 payment])" and "\<not> deleteMany_rejects env2"
  shows "(let s1 = snd (post_payments L env1 payment s);
              r2 = fst (post_payments L env2 payment s1);
              s2 = snd (post_payments L env2 payment s1)
          in payments s2 = payments s @ [stored env1 payment, stored env2 payment]
             \<and> payment_id (stored env1 payment) \<noteq> payment_id (stored env2 payment)
             \<and> doc (stored env1 payment) = doc (stored env2 payment)
             \<and> r2 = (200, Settled \<lparr>insertedId = generated_id env2\<rparr> \<lparr>deletedCount = 0\<rparr>)
             \<and> carts s2 = carts s1)"
proof -
  define s1 where
    "s1 = s\<lparr>payments := payments s @ [stored env1 payment],
            carts := filter (\<lambda>c. cart_id c \<notin> set oids) (carts s)\<rparr>"
  have el: "elements (cartIds payment) \<noteq> []"
    and m: "map_throwing (to_ObjectId L) (elements (cartIds payment)) = Some oids"
    using assms by (simp_all add: elements_JArr)
  have first: "snd (post_payments L env1 payment s) = s1"
    using post_payments_settled [OF el assms(4) m assms(5)] by (simp add: s1_def)
  have acc2: "accepted env2 (payments s1)"
    using assms(6) by (simp add: s1_def)
  have gone: "filter (\<lambda>c. cart_id c \<in> set oids) (carts s1) = []"
    by (simp add: s1_def)
  have kept: "filter (\<lambda>c. cart_id c \<notin> set oids) (carts s1) = carts s1"
    by (simp add: s1_def)
  have second: "post_payments L env2 payment s1 =
      ((200, Settled \<lparr>insertedId = generated_id env2\<rparr> \<lparr>deletedCount = 0\<rparr>),
       s1\<lparr>payments := payments s1 @ [stored env2 payment]\<rparr>)"
    using post_payments_settled [OF el acc2 m assms(7)] gone kept by simp
  have distinct_ids: "generated_id env2 \<noteq> generated_id env1"
    using assms(6) by (auto simp: accepted_def stored_def)
  show ?thesis
    using first second distinct_ids by (simp add: Let_def s1_def stored_def)
qed

theorem settle_twice_witness:
  "(let s1 = snd (post_payments lib_hex (env_ok 7) (order (Some (JArr [id1, id9]))) db1);
        r2 = fst (post_payments lib_hex (env_ok 8) (order (Some (JArr [id1, id9]))) s1);
        s2 = snd (post_payments lib_hex (env_ok 8) (order (Some (JArr [id1, id9]))) s1)
    in payments s2 = [stored (env_ok 7) (order (Some (JArr [id1, id9]))),
                      stored (env_ok 8) (order (Some (JArr [id1, id9])))]
       \<and> r2 = (200, Settled \<lparr>insertedId = 8\<rparr> \<lparr>deletedCount = 0\<rparr>)
       \<and> carts s2 = carts s1)"
proof -
  have acc1: "accepted (env_ok 7) (payments db1)"
    by (simp add: accepted_env_ok db1_def)
  have acc2: "accepted (env_ok 8)
      (payments db1 @ [stored (env_ok 7) (order (Some (JArr [id1, id9])))])"
    by (simp add: accepted_def db1_def stored_def env_ok_def)
  show ?thesis
    using settle_twice
      [OF order_cartIds _ map_throwing_ids acc1 env_ok_deleteMany acc2 env_ok_deleteMany]
    by (simp add: Let_def db1_def env_ok_def)
qed

text \<open>
  Claim C9. When \<open>cartIds\<close> is a non-empty array and the conversion of one of its elements
  to an \<open>ObjectId\<close> throws (\<open>new ObjectId(String(id))\<close> in \<open>src/index.js\<close>,
  \<open>new ObjectId(id)\<close> in \<open>part_000\<close>), the handler answers 500 and leaves the cart store
  unchanged; the payment record, inserted before the conversion, stays in the store whenever
  the store accepted the insert.
\<close>

theorem settle_unconvertible_cart_id:
  assumes "cartIds payment = Some (JArr ids)" and "ids \<noteq> []"
  shows "((\<exists>i \<in> set ids. to_ObjectId L i = None) \<longrightarrow>
            post_payments L env payment s =
              (failed500,
               s\<lparr>payments := (if accepted env (payments s)
                               then payments s @ [stored env payment] else payments s)\<rparr>))
       \<and> ((\<exists>i \<in> set ids. ObjectId_new L i = None) \<longrightarrow>
            post_payments_part_000 L env payment s =
              ((500, Failure ''Failed to process payment''),
               s\<lparr>payments := (if accepted env (payments s)
                               then payments s @ [stored env payment] else payments s)\<rparr>))"
proof -
  have el: "elements (cartIds payment) = ids" "elements (cartIds payment) \<noteq> []"
    using assms by (simp_all add: elements_JArr)
  show ?thesis
  proof (intro conjI impI)
    assume "\<exists>i \<in> set ids. to_ObjectId L i = None"
    then have m: "map_throwing (to_ObjectId L) (elements (cartIds payment)) = None"
      by (simp add: el(1) map_throwing_None_iff)
    show "post_payments L env payment s =
              (failed500,
               s\<lparr>payments := (if accepted env (payments s)
                               then payments s @ [stored env payment] else payments s)\<rparr>)"
    proof (cases "accepted env (payments s)")
      case True
      then show ?thesis using post_payments_throws [OF el(2) True m] by simp
    next
      case False
      then show ?thesis using post_payments_refused [OF el(2) False] by simp
    qed
  next
    assume "\<exists>i \<in> set ids. ObjectId_new L i = None"
    then have m: "map_throwing (ObjectId_new L) (elements (cartIds payment)) = None"
      by (simp add: el(1) map_throwing_None_iff)
    show "post_payments_part_000 L env payment s =
              ((500, Failure ''Failed to process payment''),
               s\<lparr>payments := (if accepted env (payments s)
                               then payments s @ [stored env payment] else payments s)\<rparr>)"
    proof (cases "accepted env (payments s)")
      case True
      then show ?thesis using post_payments_part_000_throws [OF el(2) True m] by simp
    next
      case False
      then show ?thesis using post_payments_part_000_refused [OF el(2) False] by simp
    qed
  qed
qed

theorem settle_unconvertible_cart_id_witness:
  "post_payments lib_hex (env_ok 7) (order (Some (JArr [id1, JStr ''not-an-id'']))) db1 =
     (failed500, db1\<lparr>payments := [stored (env_ok 7) (order (Some (JArr [id1, JStr ''not-an-id''])))]\<rparr>)
   \<and> post_payments_part_000 lib_hex (env_ok 7) (order (Some (JArr [id1, JStr ''not-an-id'']))) db1 =
     ((500, Failure ''Failed to process payment''),
      db1\<lparr>payments := [stored (env_ok 7) (order (Some (JArr [id1, JStr ''not-an-id''])))]\<rparr>)"
  using settle_unconvertible_cart_id
    [of "order (Some (JArr [id1, JStr ''not-an-id'']))" "[id1, JStr ''not-an-id'']"
        lib_hex "env_ok 7" db1]
  by (simp add: order_def to_ObjectId_bad ObjectId_new_bad accepted_env_ok db1_def)

section \<open>Checkout: the minor-unit amount\<close>

text \<open>Rules that evaluate the arithmetic of doubles on numerals.\<close>

lemma floor_numeral_div: "\<lfloor>numeral a / numeral b :: rat\<rfloor> = numeral a div numeral b"
  using floor_divide_of_int_eq [of "numeral a" "numeral b", where ?'a = rat] by simp

lemma floor_neg_numeral_div:
  "\<lfloor>- (numeral a / numeral b) :: rat\<rfloor> = - numeral a div numeral b"
  using floor_divide_of_int_eq [of "- numeral a" "numeral b", where ?'a = rat] by simp

lemma shortest_from_numeral:
  "shortest_from (numeral n) k x =
     (case candidate x k of
        Some v \<Rightarrow> v
      | None \<Rightarrow> shortest_from (pred_numeral n) (Suc k) x)"
  by (simp add: numeral_eq_Suc)

lemmas number_eval = double_def ilog_def ilog_up.simps ilog_down.simps pow_def
  round_half_even_def Let_def floor_numeral_div floor_neg_numeral_div js_mul_def js_add_def

lemmas shortest_eval = shortest_def shortest_from_numeral candidate_def

text \<open>The doubles of the literals used below.\<close>

lemma double_100: "double 100 = Finite 100"
  by (simp add: number_eval split del: if_split)

lemma double_12_345: "double (12345 / 1000) = Finite (6949617174986097 / 562949953421312)"
  by (simp add: number_eval split del: if_split)

lemma double_0_29: "double (29 / 100) = Finite (5224175567749775 / 18014398509481984)"
  by (simp add: number_eval split del: if_split)

lemma double_1_005: "double (1005 / 1000) = Finite (1131529406376837 / 1125899906842624)"
  by (simp add: number_eval split del: if_split)

text \<open>
  The product \<open>12.345 * 100\<close> is the double \<open>1234.5\<close>, which \<open>String\<close> prints as
  \<open>1234.5\<close>; \<open>parseInt\<close> reads 1234 from it and \<open>Math.round\<close> gives 1235.
\<close>

lemma product_12_345: "js_mul (double (12345 / 1000)) (double 100) = Finite (2469 / 2)"
  by (simp add: double_100 double_12_345 js_mul_def) (simp add: number_eval split del: if_split)

lemma shortest_1234_5: "shortest (2469 / 2) = 2469 / 2"
  by (simp add: shortest_eval number_eval split del: if_split)

lemma parseInt_1234_5: "parseInt (Finite (2469 / 2)) = Finite 1234"
  by (simp add: parseInt_def shortest_1234_5) (simp add: number_eval split del: if_split)

lemma Math_round_1234_5: "Math_round (Finite (2469 / 2)) = Finite 1235"
  by (simp add: Math_round_def) (simp add: number_eval split del: if_split)

text \<open>
  The products are rounded as the doubles of the code are: \<open>0.29 * 100\<close> is
  \<open>28.999999999999996\<close>, which \<open>src/index.js\<close> truncates to 28, and \<open>1.005 * 100\<close> is
  \<open>100.49999999999999\<close>, which \<open>part_000\<close> rounds to 100.
\<close>

lemma product_0_29:
  "js_mul (double (29 / 100)) (double 100) = Finite (8162774324609023 / 281474976710656)"
  by (simp add: double_100 double_0_29 js_mul_def) (simp add: number_eval split del: if_split)

lemma shortest_0_29:
  "shortest (8162774324609023 / 281474976710656) = 28999999999999996 / 1000000000000000"
  by (simp add: shortest_eval number_eval split del: if_split)

lemma amount_0_29: "amount (29 / 100) = Finite 28"
  by (simp add: amount_def product_0_29 parseInt_def shortest_0_29)
    (simp add: number_eval split del: if_split)

lemma product_1_005:
  "js_mul (double (1005 / 1000)) (double 100) = Finite (7072058789855231 / 70368744177664)"
  by (simp add: double_100 double_1_005 js_mul_def) (simp add: number_eval split del: if_split)

lemma amount_part_000_1_005: "amount_part_000 (1005 / 1000) = Finite 100"
  by (simp add: amount_part_000_def product_1_005 Math_round_def)
    (simp add: number_eval split del: if_split)

text \<open>
  Claim C2. The checkout operation converts a non-negative price to minor units by rounding
  to the nearest integer; the price 12.345 yields the amount 1235.

  \<open>part_000\<close> computes \<open>Math.round(price * 100)\<close> and yields 1235.
  \<open>src/index.js\<close> computes \<open>parseInt(price * 100)\<close>, which drops the fraction: for the
  price 12.345 it passes 1234 to the payment adapter. The theorem evaluates both.
\<close>

theorem checkout_amount_truncates:
  "amount (12345 / 1000) = Finite 1234
   \<and> create_checkout_session createIntent (12345 / 1000) =
       map_option (\<lambda>secret. (200, ClientSecret secret)) (createIntent (Finite 1234))
   \<and> amount_part_000 (12345 / 1000) = Finite 1235"
proof -
  have a: "amount (12345 / 1000) = Finite 1234"
    by (simp only: amount_def product_12_345 parseInt_1234_5)
  have b: "amount_part_000 (12345 / 1000) = Finite 1235"
    by (simp only: amount_part_000_def product_12_345 Math_round_1234_5)
  show ?thesis
    by (simp only: a b create_checkout_session_def) (simp split: option.splits)
qed

section \<open>Statistics: the revenue total\<close>

lemma foldl_js_plus_Concatenated: "foldl js_plus Concatenated ps = Concatenated"
  by (induction ps) simp_all

lemma js_plus_concatenates: "concatenates p \<Longrightarrow> js_plus t p = Concatenated"
  by (cases t; cases p) (auto simp: concatenates_def split: json.splits)

lemma js_plus_addend: "\<not> concatenates p \<Longrightarrow> js_plus (Number n) p = Number (js_add n (addend p))"
proof (cases p)
  case None
  then show ?thesis by (cases n) (simp_all add: addend_def js_add_def)
next
  case (Some v)
  assume "\<not> concatenates p"
  with Some show ?thesis by (cases v) (simp_all add: addend_def concatenates_def)
qed

lemma foldl_js_plus_string:
  "\<exists>p \<in> set ps. concatenates p \<Longrightarrow> foldl js_plus t ps = Concatenated"
proof (induction ps arbitrary: t)
  case Nil
  then show ?case by simp
next
  case (Cons p ps)
  show ?case
  proof (cases "concatenates p")
    case True
    then show ?thesis by (simp add: js_plus_concatenates foldl_js_plus_Concatenated)
  next
    case False
    with Cons.prems have "\<exists>p \<in> set ps. concatenates p" by simp
    then show ?thesis by (simp add: Cons.IH)
  qed
qed

lemma foldl_js_plus_numbers:
  "\<forall>p \<in> set ps. \<not> concatenates p \<Longrightarrow>
   foldl js_plus (Number n) ps = Number (foldl js_add n (map addend ps))"
  by (induction ps arbitrary: n) (simp_all add: js_plus_addend)

lemma stats_revenue_foldl:
  "stats_revenue (admin_stats s) =
     foldl js_plus (Number (Finite 0)) (map (\<lambda>p. price (doc p)) (payments s))"
  by (simp add: admin_stats_def foldl_map)

lemma partial_sums_head: "list_all P (partial_sums a xs) \<Longrightarrow> P a"
  by (cases xs) simp_all

text \<open>
  A sum of doubles is exact as long as no partial sum has to be rounded.
\<close>

lemma foldl_js_add_exact:
  "list_all representable xs \<Longrightarrow> list_all representable (partial_sums a xs) \<Longrightarrow>
   foldl js_add (Finite a) (map double xs) = Finite (a + sum_list xs)"
proof (induction xs arbitrary: a)
  case Nil
  then show ?case by simp
next
  case (Cons x xs)
  from Cons.prems have rx: "representable x" and xs: "list_all representable xs"
    and ps: "list_all representable (partial_sums (a + x) xs)"
    by simp_all
  from rx have x: "double x = Finite x"
    by (simp only: representable_def)
  from ps have "representable (a + x)" by (rule partial_sums_head)
  then have "js_add (Finite a) (double x) = Finite (a + x)"
    by (simp add: x js_add_def representable_def)
  then have "foldl js_add (Finite a) (map double (x # xs)) =
      foldl js_add (Finite (a + x)) (map double xs)"
    by simp
  also have "\<dots> = Finite (a + x + sum_list xs)"
    using xs ps by (rule Cons.IH)
  finally show ?case by (simp add: add.assoc)
qed

text \<open>The doubles of \<open>0.1\<close> and \<open>0.2\<close>, and their sum as JavaScript computes it.\<close>

lemma double_0_1: "double (1 / 10) = Finite (3602879701896397 / 36028797018963968)"
  by (simp add: number_eval split del: if_split)

lemma double_0_2: "double (1 / 5) = Finite (3602879701896397 / 18014398509481984)"
  by (simp add: number_eval split del: if_split)

lemma sum_0_1_0_2:
  "js_add (js_add (Finite 0) (double (1 / 10))) (double (2 / 10)) =
     Finite (1351079888211149 / 4503599627370496)"
  by (simp add: double_0_1 double_0_2 js_add_def) (simp add: number_eval split del: if_split)

text \<open>
  Claim C3, as stated: for every state of the payment store, the revenue of the summary is
  the exact sum of the prices of the stored payments.

  This fails for two payments of 0.1 and 0.2. The handler adds the prices with the \<open>+\<close> of
  JavaScript, which rounds every partial sum to a double: the revenue it returns is
  \<open>0.30000000000000004\<close>, which is neither 0.3 nor the exact sum of the two doubles that
  stand for 0.1 and 0.2.
\<close>

theorem admin_stats_revenue_is_rounded:
  "stats_revenue (admin_stats db_dimes) = Number (Finite (1351079888211149 / 4503599627370496))
   \<and> stats_revenue (admin_stats db_dimes) \<noteq> Number (Finite (1 / 10 + 2 / 10))
   \<and> double (1 / 10) = Finite (3602879701896397 / 36028797018963968)
   \<and> double (2 / 10) = Finite (3602879701896397 / 18014398509481984)
   \<and> stats_revenue (admin_stats db_dimes) \<noteq>
       Number (Finite (3602879701896397 / 36028797018963968 + 3602879701896397 / 18014398509481984))"
proof -
  have "stats_revenue (admin_stats db_dimes) =
      Number (js_add (js_add (Finite 0) (double (1 / 10))) (double (2 / 10)))"
    by (simp add: admin_stats_def db_dimes_def paid_def)
  then have r: "stats_revenue (admin_stats db_dimes) =
      Number (Finite (1351079888211149 / 4503599627370496))"
    by (simp only: sum_0_1_0_2)
  show ?thesis
    by (simp add: r double_0_1 double_0_2)
qed

text \<open>
  Claim C3, amended. For every state of the payment store, the revenue of the summary is the
  result of adding the prices of the stored payments to 0 with the \<open>+\<close> of JavaScript, in
  the order of the store. If a price is a string, an array or an object, the revenue is a
  string. Otherwise it is the sum in doubles, each partial sum rounded to the nearest double,
  where a price \<open>null\<close> or \<open>false\<close> adds 0, \<open>true\<close> adds 1 and a missing price makes the
  sum \<open>NaN\<close>. For the empty store it is 0. When every price is a number \<open>xs ! i\<close> that is a
  double and every exact partial sum of \<open>xs\<close> is a double, the revenue is the exact sum of
  the prices.
\<close>

theorem admin_stats_revenue:
  "(if \<exists>p \<in> set (payments s). concatenates (price (doc p))
    then stats_revenue (admin_stats s) = Concatenated
    else stats_revenue (admin_stats s) =
           Number (foldl js_add (Finite 0) (map (\<lambda>p. addend (price (doc p))) (payments s))))
   \<and> (payments s = [] \<longrightarrow> stats_revenue (admin_stats s) = Number (Finite 0))
   \<and> (map (\<lambda>p. price (doc p)) (payments s) = map (\<lambda>x. Some (JNum x)) xs
        \<and> list_all representable xs \<and> list_all representable (partial_sums 0 xs) \<longrightarrow>
      stats_revenue (admin_stats s) = Number (Finite (sum_list xs)))"
proof -
  let ?ps = "map (\<lambda>p. price (doc p)) (payments s)"
  have 1: "stats_revenue (admin_stats s) = Concatenated"
    if "\<exists>p \<in> set (payments s). concatenates (price (doc p))"
  proof -
    from that have "\<exists>p \<in> set ?ps. concatenates p" by simp
    then show ?thesis by (simp only: stats_revenue_foldl foldl_js_plus_string)
  qed
  have 2: "stats_revenue (admin_stats s) =
      Number (foldl js_add (Finite 0) (map (\<lambda>p. addend (price (doc p))) (payments s)))"
    if "\<not> (\<exists>p \<in> set (payments s). concatenates (price (doc p)))"
  proof -
    from that have "\<forall>p \<in> set ?ps. \<not> concatenates p" by simp
    then have "foldl js_plus (Number (Finite 0)) ?ps =
        Number (foldl js_add (Finite 0) (map addend ?ps))"
      by (rule foldl_js_plus_numbers)
    then show ?thesis by (simp add: stats_revenue_foldl comp_def)
  qed
  have 3: "stats_revenue (admin_stats s) = Number (Finite 0)" if "payments s = []"
    using that by (simp add: admin_stats_def)
  have 4: "stats_revenue (admin_stats s) = Number (Finite (sum_list xs))"
    if p: "?ps = map (\<lambda>x. Some (JNum x)) xs" and r: "list_all representable xs"
      and q: "list_all representable (partial_sums 0 xs)"
  proof -
    have "stats_revenue (admin_stats s) =
        foldl js_plus (Number (Finite 0)) (map (\<lambda>x. Some (JNum x)) xs)"
      by (simp only: stats_revenue_foldl p)
    also have "\<dots> = Number (foldl js_add (Finite 0) (map addend (map (\<lambda>x. Some (JNum x)) xs)))"
      by (rule foldl_js_plus_numbers) (simp add: concatenates_def)
    also have "map addend (map (\<lambda>x. Some (JNum x)) xs) = map double xs"
      by (simp add: addend_def)
    also have "foldl js_add (Finite 0) (map double xs) = Finite (0 + sum_list xs)"
      using r q by (rule foldl_js_add_exact)
    finally show ?thesis by simp
  qed
  have A: "if \<exists>p \<in> set (payments s). concatenates (price (doc p))
      then stats_revenue (admin_stats s) = Concatenated
      else stats_revenue (admin_stats s) =
             Number (foldl js_add (Finite 0) (map (\<lambda>p. addend (price (doc p))) (payments s)))"
  proof (cases "\<exists>p \<in> set (payments s). concatenates (price (doc p))")
    case True
    from True 1 [OF True] show ?thesis by (simp only: if_True)
  next
    case False
    from False 2 [OF False] show ?thesis by (simp only: if_False)
  qed
  have B: "payments s = [] \<longrightarrow> stats_revenue (admin_stats s) = Number (Finite 0)"
    using 3 by blast
  have C: "map (\<lambda>p. price (doc p)) (payments s) = map (\<lambda>x. Some (JNum x)) xs
        \<and> list_all representable xs \<and> list_all representable (partial_sums 0 xs) \<longrightarrow>
      stats_revenue (admin_stats s) = Number (Finite (sum_list xs))"
    using 4 by blast
  show ?thesis
    by (rule conjI [OF A conjI [OF B C]])
qed

lemma representable_paid: "list_all representable [10, 15]"
  by (simp add: representable_def) (simp add: number_eval split del: if_split)

lemma representable_paid_sums: "list_all representable (partial_sums 0 [10, 15])"
  by (simp add: representable_def) (simp add: number_eval split del: if_split)

lemma prices_db_paid:
  "map (\<lambda>p. price (doc p)) (payments db_paid) = map (\<lambda>x. Some (JNum x)) [10, 15]"
  by (simp add: db_paid_def paid_def)

lemma prices_db_text: "\<exists>p \<in> set (payments db_text). concatenates (price (doc p))"
  by (simp add: db_text_def other_order_def concatenates_def)

theorem admin_stats_revenue_witness:
  "payments db1 = []
   \<and> stats_revenue (admin_stats db1) = Number (Finite 0)
   \<and> stats_revenue (admin_stats db_paid) = Number (Finite 25)
   \<and> stats_revenue (admin_stats db_text) = Concatenated"
proof -
  have e: "payments db1 = []"
    by (simp add: db1_def)
  have "stats_revenue (admin_stats db1) = Number (Finite 0)"
    using admin_stats_revenue [of db1 "[]"] e by simp
  moreover have "stats_revenue (admin_stats db_paid) = Number (Finite 25)"
    using admin_stats_revenue [of db_paid "[10, 15]"]
      prices_db_paid representable_paid representable_paid_sums
    by simp
  moreover have "stats_revenue (admin_stats db_text) = Concatenated"
    using admin_stats_revenue [of db_text "[]"] prices_db_text by simp
  ultimately show ?thesis
    using e by simp
qed

section \<open>Access control of the routes\<close>

lemma post_payments_status:
  "fst (fst (post_payments L env payment s)) \<in> {200, 400, 500}"
  by (simp add: post_payments_def Let_def split: sum.splits option.splits prod.splits)

lemma verifyToken_no_header:
  "verifyToken jwt_verify (req\<lparr>authorization := None\<rparr>) =
     Respond (401, Failure ''unauthorized access'')"
  by (simp add: verifyToken_def)

lemma verifyToken_status:
  "verifyToken jwt_verify req = Respond r \<Longrightarrow> fst r = 401"
  by (auto simp: verifyToken_def split: option.splits if_splits)

lemma verifyAdmin_status:
  "verifyAdmin s e = Respond r \<Longrightarrow> fst r = 403"
  by (auto simp: verifyAdmin_def split: option.splits if_splits)

lemma verifyAdmin_Next:
  "verifyAdmin s e = Next u \<longleftrightarrow> (\<exists>user. findOne e (users s) = Some user \<and> role user = Some ''admin'')"
  by (auto simp: verifyAdmin_def split: option.splits if_splits)

lemma route_admin_stats_status:
  "fst (route_admin_stats jwt_verify req s) \<in> {200, 401, 403}"
  by (auto simp: route_admin_stats_def split: step.splits
      dest: verifyToken_status verifyAdmin_status)

lemma route_admin_stats_200:
  "fst (route_admin_stats jwt_verify req s) = 200 \<longleftrightarrow>
     (\<exists>e user. verifyToken jwt_verify req = Next e \<and> findOne e (users s) = Some user
                \<and> role user = Some ''admin'')"
proof (cases "verifyToken jwt_verify req")
  case (Respond r)
  then show ?thesis using verifyToken_status [OF Respond]
    by (simp add: route_admin_stats_def)
next
  case (Next e)
  show ?thesis
  proof (cases "verifyAdmin s e")
    case (Respond r)
    with Next verifyAdmin_status [OF Respond] verifyAdmin_Next [of s e] show ?thesis
      by (auto simp: route_admin_stats_def)
  next
    case Next2: (Next u)
    with Next verifyAdmin_Next [of s e u] show ?thesis
      by (auto simp: route_admin_stats_def)
  qed
qed

lemma route_admin_stats_403:
  "fst (route_admin_stats jwt_verify req s) = 403 \<longleftrightarrow>
     (\<exists>e. verifyToken jwt_verify req = Next e
           \<and> \<not> (\<exists>user. findOne e (users s) = Some user \<and> role user = Some ''admin''))"
proof (cases "verifyToken jwt_verify req")
  case (Respond r)
  then show ?thesis using verifyToken_status [OF Respond]
    by (simp add: route_admin_stats_def)
next
  case (Next e)
  show ?thesis
  proof (cases "verifyAdmin s e")
    case (Respond r)
    with Next verifyAdmin_status [OF Respond] verifyAdmin_Next [of s e] show ?thesis
      by (auto simp: route_admin_stats_def)
  next
    case Next2: (Next u)
    with Next verifyAdmin_Next [of s e u] show ?thesis
      by (auto simp: route_admin_stats_def)
  qed
qed

text \<open>
  Claim C10. \<open>POST /payments\<close> verifies no identity and checks no role: its result does not
  depend on the \<open>authorization\<close> header (a request without one is served like any other,
  whatever email its body names), and its status is 200, 400 or 500, never 401 or 403. The
  admin statistics route is gated by both checks: without a header it answers 401, it
  answers 200 exactly when the token verifies and the user found for the decoded email has
  the role \<open>admin\<close>, and 403 exactly when the token verifies and no such user is found.
\<close>

theorem payments_route_open:
  "route_payments L env (req\<lparr>authorization := a\<rparr>) s = route_payments L env req s
   \<and> fst (fst (route_payments L env req s)) \<in> {200, 400, 500}
   \<and> fst (route_admin_stats jwt_verify (req'\<lparr>authorization := None\<rparr>) s) = 401
   \<and> fst (route_admin_stats jwt_verify req' s) \<in> {200, 401, 403}
   \<and> (fst (route_admin_stats jwt_verify req' s) = 200 \<longleftrightarrow>
        (\<exists>e user. verifyToken jwt_verify req' = Next e \<and> findOne e (users s) = Some user
                   \<and> role user = Some ''admin''))
   \<and> (fst (route_admin_stats jwt_verify req' s) = 403 \<longleftrightarrow>
        (\<exists>e. verifyToken jwt_verify req' = Next e
              \<and> \<not> (\<exists>user. findOne e (users s) = Some user \<and> role user = Some ''admin'')))"
proof -
  have p1: "route_payments L env (req\<lparr>authorization := a\<rparr>) s = route_payments L env req s"
    by (simp add: route_payments_def)
  have p2: "fst (fst (route_payments L env req s)) \<in> {200, 400, 500}"
    by (simp only: route_payments_def post_payments_status)
  have a1: "fst (route_admin_stats jwt_verify (req'\<lparr>authorization := None\<rparr>) s) = 401"
    by (simp add: route_admin_stats_def verifyToken_no_header)
  from p1 p2 a1 route_admin_stats_status [of jwt_verify req' s]
    route_admin_stats_200 [of jwt_verify req' s] route_admin_stats_403 [of jwt_verify req' s]
  show ?thesis by blast
qed

text \<open>
  The routes on four requests: a settlement without a credential is served; the statistics
  are refused without a credential (401) and to Ann, who is no administrator (403), and
  served to Root.
\<close>

lemma routes_example:
  "route_payments lib_hex (env_ok 7)
      \<lparr>authorization = None, body = order (Some (JArr [id1]))\<rparr> db2 =
     ((200, Settled \<lparr>insertedId = 7\<rparr> \<lparr>deletedCount = 1\<rparr>),
      db2\<lparr>payments := [stored (env_ok 7) (order (Some (JArr [id1])))], carts := [cart2]\<rparr>)
   \<and> route_admin_stats jwt_sample \<lparr>authorization = None, body = ()\<rparr> db2 =
       (401, Failure ''unauthorized access'')
   \<and> route_admin_stats jwt_sample \<lparr>authorization = Some ''Bearer token-of-ann'', body = ()\<rparr> db2 =
       (403, Failure ''Forbidden access'')
   \<and> route_admin_stats jwt_sample \<lparr>authorization = Some ''Bearer token-of-root'', body = ()\<rparr> db2 =
       (200, Stats \<lparr>stats_revenue = Number (Finite 0), stats_orders = 0, stats_users = 2, stats_products = 0\<rparr>)"
  by code_simp

section \<open>The category breakdown\<close>

lemma joined_eq:
  "joined foreign coll =
     concat (map (\<lambda>p. map (Pair p) (filter (\<lambda>m. menu_id m \<in> set (menuItems (doc p))) foreign)) coll)"
  by (simp add: joined_def unwind_def lookup_def comp_def)

subsection \<open>The \<open>$group\<close> stage\<close>

lemma group_add_map_of:
  "map_of (group_add k v gs) =
     (map_of gs)(k \<mapsto> (case map_of gs k of None \<Rightarrow> (1, v) | Some (n, r) \<Rightarrow> (n + 1, r + v)))"
  by (induction k v gs rule: group_add.induct) (auto simp: fun_eq_iff)

lemma group_add_keys:
  "set (map fst (group_add k v gs)) = insert k (set (map fst gs))"
  by (induction k v gs rule: group_add.induct) auto

lemma group_add_distinct:
  "distinct (map fst gs) \<Longrightarrow> distinct (map fst (group_add k v gs))"
proof (induction k v gs rule: group_add.induct)
  case (1 k v)
  then show ?case by simp
next
  case (2 k v k' n r gs)
  then show ?case
    using group_add_keys [of k v gs] by (auto simp del: set_map)
qed

lemma foldl_group_add_step:
  "foldl (\<lambda>gs (p, m). group_add (menu_category m) (menu_price m) gs) gs rows = foldl step gs rows"
  by (induction rows arbitrary: gs) (auto simp: step_def)

lemma group_foldl: "group rows = foldl step [] rows"
  by (simp add: group_def foldl_group_add_step)

lemma foldl_step_distinct:
  "distinct (map fst gs) \<Longrightarrow> distinct (map fst (foldl step gs rows))"
  by (induction rows arbitrary: gs) (simp_all add: step_def group_add_distinct)

lemma foldl_step_map_of:
  "map_of (foldl step gs rows) c =
     (case map_of gs c of
        None \<Rightarrow> (if rows_of c rows = [] then None
                  else Some (length (rows_of c rows),
                             sum_list (map (\<lambda>row. menu_price (snd row)) (rows_of c rows))))
      | Some (n, r) \<Rightarrow>
          Some (n + length (rows_of c rows),
                r + sum_list (map (\<lambda>row. menu_price (snd row)) (rows_of c rows))))"
proof (induction rows arbitrary: gs)
  case Nil
  then show ?case by (simp add: rows_of_def split: option.splits)
next
  case (Cons row rows)
  have ms: "map_of (step gs row) =
      (map_of gs)(menu_category (snd row) \<mapsto>
        (case map_of gs (menu_category (snd row)) of
           None \<Rightarrow> (1, menu_price (snd row))
         | Some (n, r) \<Rightarrow> (n + 1, r + menu_price (snd row))))"
    by (simp add: step_def group_add_map_of)
  have rs: "rows_of c (row # rows) =
      (if menu_category (snd row) = c then row # rows_of c rows else rows_of c rows)"
    by (simp add: rows_of_def)
  have "map_of (foldl step gs (row # rows)) c = map_of (foldl step (step gs row) rows) c"
    by simp
  also have "\<dots> =
     (case map_of (step gs row) c of
        None \<Rightarrow> (if rows_of c rows = [] then None
                  else Some (length (rows_of c rows),
                             sum_list (map (\<lambda>row. menu_price (snd row)) (rows_of c rows))))
      | Some (n, r) \<Rightarrow>
          Some (n + length (rows_of c rows),
                r + sum_list (map (\<lambda>row. menu_price (snd row)) (rows_of c rows))))"
    by (rule Cons.IH)
  finally show ?case
    by (simp add: ms rs split: option.splits)
qed

lemma group_map_of:
  "map_of (group rows) c =
     (if rows_of c rows = [] then None
      else Some (length (rows_of c rows),
                 sum_list (map (\<lambda>row. menu_price (snd row)) (rows_of c rows))))"
  by (simp add: group_foldl foldl_step_map_of)

lemma group_distinct: "distinct (map fst (group rows))"
  by (simp add: group_foldl foldl_step_distinct)

lemma rows_of_empty_iff:
  "rows_of c rows = [] \<longleftrightarrow> c \<notin> (\<lambda>row. menu_category (snd row)) ` set rows"
  by (auto simp: rows_of_def filter_empty_conv)

lemma set_group:
  "set (group rows) =
     (\<lambda>c. (c, length (rows_of c rows),
            sum_list (map (\<lambda>row. menu_price (snd row)) (rows_of c rows))))
       ` ((\<lambda>row. menu_category (snd row)) ` set rows)"
proof -
  have "(k, v) \<in> set (group rows) \<longleftrightarrow> map_of (group rows) k = Some v" for k v
    using group_distinct [of rows] by simp
  then have "(k, v) \<in> set (group rows) \<longleftrightarrow>
      k \<in> (\<lambda>row. menu_category (snd row)) ` set rows
      \<and> v = (length (rows_of k rows),
              sum_list (map (\<lambda>row. menu_price (snd row)) (rows_of k rows)))" for k v
    by (auto simp: group_map_of rows_of_empty_iff)
  then show ?thesis
    by (auto simp: image_iff)
qed

lemma project_category: "map category (project gs) = map fst gs"
  by (simp add: project_def comp_def case_prod_beta)

lemma set_project_group:
  "set (project (group rows)) =
     summary_of rows ` ((\<lambda>row. menu_category (snd row)) ` set rows)"
  by (simp add: project_def set_group image_image summary_of_def)

subsection \<open>The pipeline and the specification's three steps\<close>

lemma order_stats_summaries:
  "distinct (map category (order_stats s))
   \<and> set (order_stats s) =
       summary_of (joined (menu s) (payments s))
         ` ((\<lambda>row. menu_category (snd row)) ` set (joined (menu s) (payments s)))"
  by (simp add: order_stats_def aggregate_def project_category group_distinct
      set_project_group joined_def [symmetric])

lemma categoryBreakdown_spec_summaries:
  "distinct (map category (categoryBreakdown_spec catalog coll))
   \<and> set (categoryBreakdown_spec catalog coll) =
       summary_of (join_spec catalog (rows_spec coll))
         ` ((\<lambda>row. menu_category (snd row)) ` set (join_spec catalog (rows_spec coll)))"
  by (simp add: categoryBreakdown_spec_def project_category group_distinct set_project_group)

lemma mset_join_one:
  "distinct items \<Longrightarrow>
   mset (concat (map (\<lambda>i. filter (\<lambda>m. menu_id m = i) catalog) items)) =
   mset (filter (\<lambda>m. menu_id m \<in> set items) catalog)"
proof (induction items)
  case Nil
  then show ?case by simp
next
  case (Cons i items)
  have "filter_mset (\<lambda>m. menu_id m \<in> set (i # items)) (mset catalog) =
        filter_mset (\<lambda>m. menu_id m = i) (mset catalog)
        + filter_mset (\<lambda>m. menu_id m \<in> set items) (mset catalog)"
    using Cons.prems by (induction catalog) auto
  with Cons show ?case by simp
qed

lemma join_spec_rows_spec:
  "join_spec catalog (rows_spec coll) =
     concat (map (\<lambda>p. map (Pair p)
       (concat (map (\<lambda>i. filter (\<lambda>m. menu_id m = i) catalog) (menuItems (doc p))))) coll)"
  by (induction coll) (simp_all add: join_spec_def rows_spec_def map_concat comp_def)

lemma mset_joined_spec:
  "\<forall>p \<in> set coll. distinct (menuItems (doc p)) \<Longrightarrow>
   mset (joined catalog coll) = mset (join_spec catalog (rows_spec coll))"
  by (induction coll) (simp_all add: joined_eq join_spec_rows_spec mset_join_one)

lemma summary_of_mset:
  assumes "mset rows = mset rows'"
  shows "summary_of rows c = summary_of rows' c"
proof -
  have m: "mset (rows_of c rows) = mset (rows_of c rows')"
    using assms by (simp add: rows_of_def)
  have "length (rows_of c rows) = length (rows_of c rows')"
    using m by (rule mset_eq_length)
  moreover have "sum_mset (mset (map (\<lambda>row. menu_price (snd row)) (rows_of c rows))) =
      sum_mset (mset (map (\<lambda>row. menu_price (snd row)) (rows_of c rows')))"
    by (simp only: mset_map m)
  then have "sum_list (map (\<lambda>row. menu_price (snd row)) (rows_of c rows)) =
      sum_list (map (\<lambda>row. menu_price (snd row)) (rows_of c rows'))"
    by (simp only: sum_mset_sum_list)
  ultimately show ?thesis by (simp add: summary_of_def)
qed

text \<open>
  When no payment lists an item twice, the pipeline returns the summaries of the
  specification's three steps, up to their order.
\<close>

lemma order_stats_refines_spec:
  assumes "\<forall>p \<in> set (payments s). distinct (menuItems (doc p))"
  shows "mset (order_stats s) = mset (categoryBreakdown_spec (menu s) (payments s))"
proof -
  let ?code = "joined (menu s) (payments s)"
  let ?spec = "join_spec (menu s) (rows_spec (payments s))"
  have m: "mset ?code = mset ?spec"
    using assms by (rule mset_joined_spec)
  then have s: "set ?code = set ?spec"
    by (rule mset_eq_setD)
  have "set (order_stats s) = set (categoryBreakdown_spec (menu s) (payments s))"
    using order_stats_summaries [of s] categoryBreakdown_spec_summaries [of "menu s" "payments s"]
      summary_of_mset [OF m] s
    by (auto simp: image_iff)
  moreover have "distinct (order_stats s)"
    using order_stats_summaries [of s] by (simp add: distinct_map)
  moreover have "distinct (categoryBreakdown_spec (menu s) (payments s))"
    using categoryBreakdown_spec_summaries [of "menu s" "payments s"] by (simp add: distinct_map)
  ultimately show ?thesis
    by (simp add: set_eq_iff_mset_eq_distinct)
qed

lemmas run_order_stats = order_stats_def aggregate_def lookup_def unwind_def group_def
  project_def categoryBreakdown_spec_def rows_spec_def join_spec_def bought_def itemA_def
  itemB_def

text \<open>
  What the pipeline computes, in every state. A payment contributes one row for each
  document of the joined collection (the one named \<open>menu\<close>) whose identifier occurs in its
  list of menu items, however often it occurs there; an identifier that matches no document
  contributes no row. The result has exactly one summary for each category of a row, whose
  quantity is the number of rows of that category and whose revenue is the sum of the
  documents' current prices over those rows. When no payment lists an item twice, these are
  the summaries of the specification's three steps, up to their order.
\<close>

lemma order_stats_breakdown:
  "joined (menu s) (payments s) =
     concat (map (\<lambda>p. map (Pair p)
               (filter (\<lambda>m. menu_id m \<in> set (menuItems (doc p))) (menu s))) (payments s))
   \<and> distinct (map category (order_stats s))
   \<and> set (order_stats s) =
       summary_of (joined (menu s) (payments s))
         ` ((\<lambda>row. menu_category (snd row)) ` set (joined (menu s) (payments s)))
   \<and> ((\<forall>p \<in> set (payments s). distinct (menuItems (doc p))) \<longrightarrow>
        mset (order_stats s) = mset (categoryBreakdown_spec (menu s) (payments s)))"
  using joined_eq [of "menu s" "payments s"] order_stats_summaries [of s]
    order_stats_refines_spec [of s]
  by blast

lemma order_stats_breakdown_example:
  "distinct (menuItems (doc (bought [''A'', ''B''])))
   \<and> set (order_stats (db_menus\<lparr>menu := [itemA, itemB]\<rparr>)) =
       {\<lparr>category = ''Salad'', quantity = 1, revenue = 10\<rparr>,
        \<lparr>category = ''Dessert'', quantity = 1, revenue = 5\<rparr>}
   \<and> mset (order_stats (db_menus\<lparr>menu := [itemA, itemB]\<rparr>)) =
       mset (categoryBreakdown_spec [itemA, itemB] [bought [''A'', ''B'']])"
  using order_stats_breakdown [of "db_menus\<lparr>menu := [itemA, itemB]\<rparr>"]
  by (simp add: db_menus_def run_order_stats)

text \<open>
  Claim C4. The breakdown expands each payment's list of menu items into one row per
  element, without deduplication, drops the rows that match no item, and reports per
  category the number of rows and the sum of the items' current prices.

  The handler does not do this where a payment lists an item twice. Its pipeline runs
  \<open>$lookup\<close> on the whole list before \<open>$unwind\<close>, so the joined array holds the item once:
  for a payment with \<open>menuItems = [A, A]\<close> the code reports quantity 1 and revenue 10 for
  the category of A, where the three steps of the claim give quantity 2 and revenue 20. An
  item bought twice is counted and charged once in the statistics.
\<close>

theorem order_stats_counts_item_once:
  "order_stats db_twice = [\<lparr>category = ''Salad'', quantity = 1, revenue = 10\<rparr>]
   \<and> categoryBreakdown_spec (menus db_twice) (payments db_twice) =
       [\<lparr>category = ''Salad'', quantity = 2, revenue = 20\<rparr>]"
  by (simp add: db_twice_def run_order_stats)

text \<open>
  Claim C5. With a catalog that holds exactly A (Salad, 10) and B (Dessert, 5) and one
  payment that references A and B, the breakdown is the two summaries Salad 1, 10 and
  Dessert 1, 5.

  In \<open>src/index.js\<close> the catalog is the collection \<open>menus\<close> (line 55), which the menu routes
  read and write, while the pipeline joins the collection named \<open>menu\<close>. In the state of the
  scenario, with nothing stored under \<open>menu\<close>, the code returns no summary at all. Where
  the items are stored under \<open>menu\<close>, as the two other revisions bind the catalog, it
  returns the two summaries. The theorem evaluates both.
\<close>

theorem order_stats_joins_menu_not_menus:
  "menus db_menus = [itemA, itemB]
   \<and> payments db_menus = [bought [''A'', ''B'']]
   \<and> order_stats db_menus = []
   \<and> order_stats (db_menus\<lparr>menu := menus db_menus\<rparr>) =
       [\<lparr>category = ''Salad'', quantity = 1, revenue = 10\<rparr>,
        \<lparr>category = ''Dessert'', quantity = 1, revenue = 5\<rparr>]"
  by (simp add: db_menus_def run_order_stats)

end
